theory Spec2Isabelle
  imports Main "HOL-Library.AList" "HOL-Library.Sublist"
begin

section \<open>JavaScript values\<close>

text \<open>
  The bridge reads four fields of an inbound message dynamically (\<^verbatim>\<open>typeof\<close>, \<^verbatim>\<open>===\<close>)
  and tests three options for truthiness, so those positions carry a dynamically typed
  value. \<open>JObject\<close> is any object without the protocol fields. A number is an
  integer or NaN: the code only asks for its \<^verbatim>\<open>typeof\<close> and its truthiness.
\<close>

datatype jsnum = Num int | NaN

datatype jsval = JUndefined | JNull | JBool bool | JNum jsnum | JStr string | JObject

fun typeof :: "jsval \<Rightarrow> string" where
  "typeof JUndefined = ''undefined''"
| "typeof JNull = ''object''"
| "typeof (JBool b) = ''boolean''"
| "typeof (JNum n) = ''number''"
| "typeof (JStr s) = ''string''"
| "typeof JObject = ''object''"

fun truthy_num :: "jsnum \<Rightarrow> bool" where
  "truthy_num (Num n) = (n \<noteq> 0)"
| "truthy_num NaN = False"

fun truthy :: "jsval \<Rightarrow> bool" where
  "truthy JUndefined = False"
| "truthy JNull = False"
| "truthy (JBool b) = b"
| "truthy (JNum n) = truthy_num n"
| "truthy (JStr s) = (s \<noteq> [])"
| "truthy JObject = True"

text \<open>Truthiness of an optional string (\<open>None\<close> is \<^verbatim>\<open>undefined\<close>).\<close>

fun truthy_str :: "string option \<Rightarrow> bool" where
  "truthy_str None = False"
| "truthy_str (Some s) = (s \<noteq> [])"

text \<open>An optional string inside a template literal: \<^verbatim>\<open>`${x}`\<close>.\<close>

fun tmpl :: "string option \<Rightarrow> string" where
  "tmpl None = ''undefined''"
| "tmpl (Some s) = s"

section \<open>types.ts\<close>

definition MT_REQUEST :: string where "MT_REQUEST = ''REQUEST''"
definition MT_RESPONSE :: string where "MT_RESPONSE = ''RESPONSE''"
definition MT_EVENT :: string where "MT_EVENT = ''EVENT''"
definition MT_ERROR :: string where "MT_ERROR = ''ERROR''"

text \<open>
  \<^verbatim>\<open>interface Message\<close>. The fields that \<^verbatim>\<open>isValidMessage\<close> inspects are dynamically
  typed, because inbound data is \<^verbatim>\<open>any\<close> cast to \<^verbatim>\<open>Message\<close>; the optional fields it
  does not inspect have the type the interface declares (\<open>None\<close> is \<^verbatim>\<open>undefined\<close>).
  The payload type \<open>'d\<close> is opaque.
\<close>

record 'd Message =
  msg_protocol :: jsval
  msg_id :: jsval
  msg_type :: jsval
  msg_method :: "string option"
  msg_channel :: "string option"
  msg_data :: "'d option"
  msg_error :: "string option"
  msg_timestamp :: jsval

record BridgeOptions =
  opt_targetOrigin :: "string option"
  opt_timeout :: "jsnum option"
  opt_debug :: "bool option"

text \<open>
  What a call of a request handler gives to \<^verbatim>\<open>await handler(message.data)\<close>: a plain
  value, an exception thrown by the call itself, or a promise. A promise is fulfilled
  with a value, is rejected, or never settles. A thrown or rejected \<^verbatim>\<open>Error\<close> carries
  its message; another value is represented by the text \<^verbatim>\<open>String(error)\<close> gives for it,
  or, when \<^verbatim>\<open>String(error)\<close> itself throws (an object without a usable \<^verbatim>\<open>toString\<close>),
  by the message of that exception.
\<close>

datatype thrown = ErrorObj string | NonError string | Unstringable string

datatype 'd settlement = Fulfils "'d option" | Rejects thrown | NeverSettles

datatype 'd hresult = Returns "'d option" | Throws thrown | Promise "'d settlement"

type_synonym 'd RequestHandler = "'d option \<Rightarrow> 'd hresult"

text \<open>
  An event listener is a function object: the \<^verbatim>\<open>Set\<close> holding listeners compares them by
  identity (\<open>identity\<close>). Of its body the dispatcher only sees whether the call throws.
\<close>

datatype 'd EventHandler = Listener (identity: nat) (throws: "'d option \<Rightarrow> bool")

section \<open>The target window\<close>

text \<open>
  \<^verbatim>\<open>target.postMessage(message, targetOrigin)\<close> can throw. It first checks the target
  origin (\<open>originError\<close> gives the message of the \<^verbatim>\<open>SyntaxError\<close> for a string that is
  neither \<^verbatim>\<open>*\<close> nor \<^verbatim>\<open>/\<close> nor an absolute URL), then serialises the message with the
  structured clone algorithm (\<open>clone\<close> gives the copy of a payload, or the message of
  the \<^verbatim>\<open>DataCloneError\<close>). The other fields of an envelope are strings and numbers,
  which always clone, and \<^verbatim>\<open>undefined\<close> clones to itself. What is queued for delivery
  is the copy.
\<close>

record 'd Window =
  originError :: "string \<Rightarrow> string option"
  clone :: "'d \<Rightarrow> string + 'd"

definition Window_postMessage :: "'d Window \<Rightarrow> 'd option \<Rightarrow> string \<Rightarrow> string + 'd option" where
  "Window_postMessage win data origin =
     (case originError win origin of
        Some e \<Rightarrow> Inl e
      | None \<Rightarrow>
          (case data of
             None \<Rightarrow> Inr None
           | Some d \<Rightarrow> (case clone win d of Inl e \<Rightarrow> Inl e | Inr d' \<Rightarrow> Inr (Some d'))))"

section \<open>The state a bridge and its channels share\<close>

text \<open>The fields of an instance that never change after construction.\<close>

record 'd XFrameBridge =
  target :: "'d Window"
  targetOrigin :: string
  timeout :: jsnum
  debug :: bool
  channelName :: "string option"
  isRootBridge :: bool

text \<open>
  \<open>pr_promise\<close> stands for the pair \<^verbatim>\<open>resolve\<close>/\<^verbatim>\<open>reject\<close> of the promise that
  \<^verbatim>\<open>request\<close> returned.
\<close>

record PendingRequest =
  pr_promise :: nat
  pr_timer :: nat
  pr_channel :: "string option"

text \<open>
  An active timer: the variables the \<^verbatim>\<open>setTimeout\<close> callback of \<^verbatim>\<open>request\<close> closes
  over, and the delay it was armed with.
\<close>

record TimeoutCallback =
  cb_id :: string
  cb_method :: string
  cb_promise :: nat
  cb_delay :: jsnum

text \<open>
  A call of \<^verbatim>\<open>handleRequest\<close> suspended at its \<^verbatim>\<open>await\<close>: what the rest of the function
  refers to (\<^verbatim>\<open>this\<close>, \<^verbatim>\<open>message.id\<close>, \<^verbatim>\<open>message.channel\<close>) and the promise it waits for.
\<close>

record 'd Suspended =
  su_this :: "'d XFrameBridge"
  su_id :: jsval
  su_channel :: "string option"
  su_outcome :: "'d settlement"

datatype 'd outcome = Resolved "'d option" | Rejected string

datatype 'd call = HandlerCall string "'d option" | ListenerCall nat "'d option"

text \<open>
  A root bridge creates the three maps; every channel instance holds references to the
  same three objects, so all instances of one root act on one state. A JavaScript
  \<^verbatim>\<open>Map\<close> is an association list with distinct keys in insertion order
  (\<open>AList.update\<close> is \<^verbatim>\<open>set\<close>, \<open>AList.delete\<close> is \<^verbatim>\<open>delete\<close>, \<open>map_of\<close> is \<^verbatim>\<open>get\<close>),
  a \<^verbatim>\<open>Set\<close> is a list in insertion order. Beside the maps the state holds what the code
  reaches in its window: the root's subscription to \<^verbatim>\<open>message\<close> events, the active
  timers, the suspended calls of \<^verbatim>\<open>handleRequest\<close>, and the traces of its effects: the
  messages \<^verbatim>\<open>target.postMessage\<close> accepted (\<open>outbox\<close>), the settlements of the promises
  of \<^verbatim>\<open>request\<close> in the order of the calls of \<^verbatim>\<open>resolve\<close>/\<^verbatim>\<open>reject\<close> (\<open>settled\<close>; a promise
  keeps its first settlement), invocations of handlers and listeners (\<open>calls\<close>), the
  exceptions that leave \<^verbatim>\<open>handleMessage\<close> as a rejection nobody handles
  (\<open>unhandledRejections\<close>), and the lines of the debug log (\<open>console\<close>; prefix and text,
  without the data argument).
\<close>

record 'd world =
  handlers :: "(string \<times> 'd RequestHandler) list"
  eventHandlers :: "(string \<times> 'd EventHandler list) list"
  pendingRequests :: "(string \<times> PendingRequest) list"
  messageHandler :: bool
  timers :: "(nat \<times> TimeoutCallback) list"
  nextTimer :: nat
  nextPromise :: nat
  awaiting :: "(nat \<times> 'd Suspended) list"
  nextAwait :: nat
  outbox :: "('d Message \<times> string) list"
  settled :: "(nat \<times> 'd outcome) list"
  calls :: "'d call list"
  unhandledRejections :: "string list"
  console :: "string list"

datatype 'd event_data = Primitive jsval | Object "'d Message"

record 'd MessageEvent =
  ev_origin :: string
  ev_data :: "'d event_data"

section \<open>bridge.ts\<close>

definition PROTOCOL_ID :: string where
  "PROTOCOL_ID = ''__XFRAME_BRIDGE__''"

definition log :: "'d XFrameBridge \<Rightarrow> string \<Rightarrow> 'd world \<Rightarrow> 'd world" where
  "log this message w =
     (if debug this
      then let logPrefix = (if truthy_str (channelName this)
                            then ''[XFrameBridge:'' @ tmpl (channelName this) @ '']''
                            else ''[XFrameBridge]'')
           in w\<lparr>console := console w @ [logPrefix @ '' '' @ message]\<rparr>
      else w)"

text \<open>
  \<^verbatim>\<open>getHandlerKey(method, channel?)\<close>. At run time \<^verbatim>\<open>message.method!\<close> may be
  \<^verbatim>\<open>undefined\<close>; the result is then the key \<^verbatim>\<open>undefined\<close> (\<open>None\<close>) without a channel and
  the text \<^verbatim>\<open>ch:undefined\<close> with one.
\<close>

definition getHandlerKey ::
  "'d XFrameBridge \<Rightarrow> string option \<Rightarrow> string option \<Rightarrow> string option" where
  "getHandlerKey this method channel =
     (let ch = (if channel \<noteq> None then channel else channelName this)
      in if truthy_str ch then Some (tmpl ch @ '':'' @ tmpl method) else method)"

text \<open>\<^verbatim>\<open>Map.get\<close> with a key that may be \<^verbatim>\<open>undefined\<close>: the maps only hold string keys.\<close>

fun Map_get :: "(string \<times> 'v) list \<Rightarrow> string option \<Rightarrow> 'v option" where
  "Map_get m None = None"
| "Map_get m (Some key) = map_of m key"

text \<open>\<^verbatim>\<open>Map.get\<close> with a dynamically typed key.\<close>

fun Map_get_js :: "(string \<times> 'v) list \<Rightarrow> jsval \<Rightarrow> 'v option" where
  "Map_get_js m (JStr key) = map_of m key"
| "Map_get_js m _ = None"

fun Map_delete_js :: "jsval \<Rightarrow> (string \<times> 'v) list \<Rightarrow> (string \<times> 'v) list" where
  "Map_delete_js (JStr key) m = AList.delete key m"
| "Map_delete_js _ m = m"

definition Set_add :: "'d EventHandler \<Rightarrow> 'd EventHandler list \<Rightarrow> 'd EventHandler list" where
  "Set_add h s = (if identity h \<in> identity ` set s then s else s @ [h])"

definition Set_delete :: "'d EventHandler \<Rightarrow> 'd EventHandler list \<Rightarrow> 'd EventHandler list" where
  "Set_delete h s = filter (\<lambda>x. identity x \<noteq> identity h) s"

definition new_bridge ::
  "'d Window \<Rightarrow> BridgeOptions \<Rightarrow> string option \<Rightarrow> bool \<Rightarrow> 'd XFrameBridge" where
  "new_bridge tgt options chName hasRootBridge =
     \<lparr>target = tgt,
      targetOrigin = (if truthy_str (opt_targetOrigin options)
                      then tmpl (opt_targetOrigin options) else ''*''),
      timeout = (case opt_timeout options of
                   Some n \<Rightarrow> if truthy_num n then n else Num 30000
                 | None \<Rightarrow> Num 30000),
      debug = (case opt_debug options of Some b \<Rightarrow> (if b then b else False) | None \<Rightarrow> False),
      channelName = chName,
      isRootBridge = (\<not> hasRootBridge)\<rparr>"

text \<open>
  The constructor. A root creates the three maps and subscribes to \<^verbatim>\<open>message\<close> events;
  a channel instance takes the maps of its root.
\<close>

definition constructor ::
  "'d Window \<Rightarrow> BridgeOptions \<Rightarrow> string option \<Rightarrow> bool \<Rightarrow> 'd world \<Rightarrow>
   'd XFrameBridge \<times> 'd world" where
  "constructor tgt options chName hasRootBridge w =
     (let this = new_bridge tgt options chName hasRootBridge;
          w1 = (if isRootBridge this
                then w\<lparr>handlers := [], eventHandlers := [], pendingRequests := [],
                        messageHandler := True\<rparr>
                else w)
      in (this, log this ''Bridge initialized'' w1))"

text \<open>
  \<^verbatim>\<open>postMessage\<close>: \<open>Inl\<close> is the message of the exception \<^verbatim>\<open>target.postMessage\<close> threw,
  with the state as it was.
\<close>

definition postMessage :: "'d XFrameBridge \<Rightarrow> 'd Message \<Rightarrow> 'd world \<Rightarrow> string + 'd world" where
  "postMessage this message w =
     (case Window_postMessage (target this) (msg_data message) (targetOrigin this) of
        Inl e \<Rightarrow> Inl e
      | Inr data \<Rightarrow>
          Inr (w\<lparr>outbox := outbox w @ [(message\<lparr>msg_data := data\<rparr>, targetOrigin this)]\<rparr>))"

definition resolve :: "nat \<Rightarrow> 'd option \<Rightarrow> 'd world \<Rightarrow> 'd world" where
  "resolve p v w = w\<lparr>settled := settled w @ [(p, Resolved v)]\<rparr>"

definition reject :: "nat \<Rightarrow> string \<Rightarrow> 'd world \<Rightarrow> 'd world" where
  "reject p e w = w\<lparr>settled := settled w @ [(p, Rejected e)]\<rparr>"

definition clearTimeout :: "nat \<Rightarrow> 'd world \<Rightarrow> 'd world" where
  "clearTimeout t w = w\<lparr>timers := AList.delete t (timers w)\<rparr>"

text \<open>
  \<^verbatim>\<open>request\<close>. The identifier is the result of \<^verbatim>\<open>generateId()\<close>, which reads the clock
  and \<^verbatim>\<open>Math.random\<close>; \<open>now\<close> is \<^verbatim>\<open>Date.now()\<close>. The result is the new promise and the
  state after the synchronous part of the call. When \<^verbatim>\<open>postMessage\<close> throws inside the
  executor, the timer and the pending entry are already in place, the promise is
  rejected with the exception, and the log line is skipped.
\<close>

definition request ::
  "'d XFrameBridge \<Rightarrow> string \<Rightarrow> int \<Rightarrow> string \<Rightarrow> 'd option \<Rightarrow> 'd world \<Rightarrow> nat \<times> 'd world" where
  "request this ident now method data w =
     (let message = \<lparr>msg_protocol = JStr PROTOCOL_ID, msg_id = JStr ident,
                     msg_type = JStr MT_REQUEST, msg_method = Some method,
                     msg_channel = channelName this, msg_data = data, msg_error = None,
                     msg_timestamp = JNum (Num now)\<rparr>;
          promise = nextPromise w;
          timer = nextTimer w;
          w1 = w\<lparr>nextPromise := Suc promise, nextTimer := Suc timer,
                 timers := AList.update timer
                   \<lparr>cb_id = ident, cb_method = method, cb_promise = promise,
                    cb_delay = timeout this\<rparr> (timers w)\<rparr>;
          w2 = w1\<lparr>pendingRequests := AList.update ident
                   \<lparr>pr_promise = promise, pr_timer = timer, pr_channel = channelName this\<rparr>
                   (pendingRequests w1)\<rparr>
      in case postMessage this message w2 of
           Inl e \<Rightarrow> (promise, reject promise e w2)
         | Inr w3 \<Rightarrow> (promise, log this ''Request sent'' w3))"

text \<open>
  A timer of the window fires: it is removed from the active timers and the callback
  that \<^verbatim>\<open>request\<close> gave to \<^verbatim>\<open>setTimeout\<close> runs.
\<close>

definition fireTimer :: "nat \<Rightarrow> 'd world \<Rightarrow> 'd world" where
  "fireTimer t w =
     (case map_of (timers w) t of
        None \<Rightarrow> w
      | Some cb \<Rightarrow>
          let w1 = w\<lparr>timers := AList.delete t (timers w)\<rparr>;
              w2 = w1\<lparr>pendingRequests := AList.delete (cb_id cb) (pendingRequests w1)\<rparr>
          in reject (cb_promise cb) (''Request timeout: '' @ cb_method cb) w2)"

text \<open>
  \<^verbatim>\<open>on\<close>, \<^verbatim>\<open>listen\<close> and \<^verbatim>\<open>off\<close> pass a string to \<^verbatim>\<open>getHandlerKey\<close>, so the key is a
  string (lemma \<open>getHandlerKey_string\<close>) and the branch for \<open>None\<close> is never taken.
\<close>

definition on :: "'d XFrameBridge \<Rightarrow> string \<Rightarrow> 'd RequestHandler \<Rightarrow> 'd world \<Rightarrow> 'd world" where
  "on this method handler w =
     (case getHandlerKey this (Some method) None of
        None \<Rightarrow> w
      | Some key \<Rightarrow>
          log this ''Handler registered'' (w\<lparr>handlers := AList.update key handler (handlers w)\<rparr>))"

text \<open>\<^verbatim>\<open>emit\<close>: \<open>Inl\<close> is the exception of \<^verbatim>\<open>postMessage\<close>, which reaches the caller.\<close>

definition emit ::
  "'d XFrameBridge \<Rightarrow> string \<Rightarrow> int \<Rightarrow> string \<Rightarrow> 'd option \<Rightarrow> 'd world \<Rightarrow> string + 'd world" where
  "emit this ident now event data w =
     (let message = \<lparr>msg_protocol = JStr PROTOCOL_ID, msg_id = JStr ident,
                     msg_type = JStr MT_EVENT, msg_method = Some event,
                     msg_channel = channelName this, msg_data = data, msg_error = None,
                     msg_timestamp = JNum (Num now)\<rparr>
      in case postMessage this message w of
           Inl e \<Rightarrow> Inl e
         | Inr w1 \<Rightarrow> Inr (log this ''Event emitted'' w1))"

definition listen :: "'d XFrameBridge \<Rightarrow> string \<Rightarrow> 'd EventHandler \<Rightarrow> 'd world \<Rightarrow> 'd world" where
  "listen this event handler w =
     (case getHandlerKey this (Some event) None of
        None \<Rightarrow> w
      | Some key \<Rightarrow>
          let eh = (if map_of (eventHandlers w) key = None
                    then AList.update key [] (eventHandlers w) else eventHandlers w);
              eh' = (case map_of eh key of
                       None \<Rightarrow> eh
                     | Some s \<Rightarrow> AList.update key (Set_add handler s) eh)
          in log this ''Event listener added'' (w\<lparr>eventHandlers := eh'\<rparr>))"

definition off ::
  "'d XFrameBridge \<Rightarrow> string \<Rightarrow> 'd EventHandler option \<Rightarrow> 'd world \<Rightarrow> 'd world" where
  "off this event handler w =
     (case getHandlerKey this (Some event) None of
        None \<Rightarrow> w
      | Some key \<Rightarrow>
          (case handler of
             None \<Rightarrow>
               log this ''All event listeners removed''
                 (w\<lparr>eventHandlers := AList.delete key (eventHandlers w)\<rparr>)
           | Some h \<Rightarrow>
               log this ''Event listener removed''
                 (case map_of (eventHandlers w) key of
                    None \<Rightarrow> w
                  | Some hs \<Rightarrow>
                      let hs' = Set_delete h hs;
                          eh = AList.update key hs' (eventHandlers w)
                      in if length hs' = 0
                         then w\<lparr>eventHandlers := AList.delete key eh\<rparr>
                         else w\<lparr>eventHandlers := eh\<rparr>)))"

text \<open>The loop of the root's \<^verbatim>\<open>destroy\<close> over the pending requests.\<close>

fun rejectAll :: "(string \<times> PendingRequest) list \<Rightarrow> 'd world \<Rightarrow> 'd world" where
  "rejectAll [] w = w"
| "rejectAll ((ident, req) # rest) w =
     rejectAll rest (reject (pr_promise req) ''Bridge destroyed'' (clearTimeout (pr_timer req) w))"

text \<open>The two loops of a channel's \<^verbatim>\<open>destroy\<close> over a snapshot of the keys of a map.\<close>

fun deleteKeys :: "string \<Rightarrow> string list \<Rightarrow> (string \<times> 'v) list \<Rightarrow> (string \<times> 'v) list" where
  "deleteKeys channelPrefix [] m = m"
| "deleteKeys channelPrefix (key # keys) m =
     deleteKeys channelPrefix keys (if prefix channelPrefix key then AList.delete key m else m)"

text \<open>Its loop over a snapshot of the entries of the pending requests.\<close>

fun rejectChannel ::
  "string option \<Rightarrow> (string \<times> PendingRequest) list \<Rightarrow> 'd world \<Rightarrow> 'd world" where
  "rejectChannel chName [] w = w"
| "rejectChannel chName ((ident, req) # rest) w =
     rejectChannel chName rest
       (if pr_channel req = chName
        then let w1 = reject (pr_promise req) ''Channel destroyed'' (clearTimeout (pr_timer req) w)
             in w1\<lparr>pendingRequests := AList.delete ident (pendingRequests w1)\<rparr>
        else w)"

definition destroy :: "'d XFrameBridge \<Rightarrow> 'd world \<Rightarrow> 'd world" where
  "destroy this w =
     (if isRootBridge this
      then let w1 = (if messageHandler w then w\<lparr>messageHandler := False\<rparr> else w);
               w2 = rejectAll (pendingRequests w1) w1;
               w3 = w2\<lparr>pendingRequests := [], handlers := [], eventHandlers := []\<rparr>
           in log this ''Bridge destroyed (root)'' w3
      else let channelPrefix = tmpl (channelName this) @ '':'';
               w1 = w\<lparr>handlers := deleteKeys channelPrefix (map fst (handlers w)) (handlers w)\<rparr>;
               w2 = w1\<lparr>eventHandlers :=
                        deleteKeys channelPrefix (map fst (eventHandlers w1)) (eventHandlers w1)\<rparr>;
               w3 = rejectChannel (channelName this) (pendingRequests w2) w2
           in log this ''Bridge destroyed (channel)'' w3)"

text \<open>
  \<^verbatim>\<open>sendResponse\<close> and \<^verbatim>\<open>sendError\<close>: \<open>Inl\<close> is the exception of \<^verbatim>\<open>postMessage\<close>, with
  the state as it was.
\<close>

definition sendResponse ::
  "'d XFrameBridge \<Rightarrow> int \<Rightarrow> jsval \<Rightarrow> 'd option \<Rightarrow> string option \<Rightarrow> 'd world \<Rightarrow>
   string + 'd world" where
  "sendResponse this now ident data channel w =
     (let message = \<lparr>msg_protocol = JStr PROTOCOL_ID, msg_id = ident,
                     msg_type = JStr MT_RESPONSE, msg_method = None, msg_channel = channel,
                     msg_data = data, msg_error = None, msg_timestamp = JNum (Num now)\<rparr>
      in case postMessage this message w of
           Inl e \<Rightarrow> Inl e
         | Inr w1 \<Rightarrow> Inr (log this ''Response sent'' w1))"

definition sendError ::
  "'d XFrameBridge \<Rightarrow> int \<Rightarrow> jsval \<Rightarrow> string \<Rightarrow> string option \<Rightarrow> 'd world \<Rightarrow>
   string + 'd world" where
  "sendError this now ident error channel w =
     (let message = \<lparr>msg_protocol = JStr PROTOCOL_ID, msg_id = ident,
                     msg_type = JStr MT_ERROR, msg_method = None, msg_channel = channel,
                     msg_data = None, msg_error = Some error, msg_timestamp = JNum (Num now)\<rparr>
      in case postMessage this message w of
           Inl e \<Rightarrow> Inl e
         | Inr w1 \<Rightarrow> Inr (log this ''Error sent'' w1))"

text \<open>
  An exception that leaves \<^verbatim>\<open>handleRequest\<close> rejects its promise; the \<^verbatim>\<open>await\<close> in
  \<^verbatim>\<open>handleMessage\<close> passes the rejection on to the promise of \<^verbatim>\<open>handleMessage\<close>, which
  the window drops.
\<close>

definition unhandledRejection :: "string \<Rightarrow> 'd world \<Rightarrow> 'd world" where
  "unhandledRejection e w = w\<lparr>unhandledRejections := unhandledRejections w @ [e]\<rparr>"

definition orUnhandled :: "string + 'd world \<Rightarrow> 'd world \<Rightarrow> 'd world" where
  "orUnhandled result w = (case result of Inl e \<Rightarrow> unhandledRejection e w | Inr w1 \<Rightarrow> w1)"

text \<open>
  The \<^verbatim>\<open>catch\<close> block of \<^verbatim>\<open>handleRequest\<close>:
  \<^verbatim>\<open>sendError(id, error instanceof Error ? error.message : String(error), channel)\<close>.
  Nothing catches what \<^verbatim>\<open>String(error)\<close> or \<^verbatim>\<open>sendError\<close> throws here.
\<close>

definition catchBlock ::
  "'d XFrameBridge \<Rightarrow> int \<Rightarrow> jsval \<Rightarrow> string option \<Rightarrow> thrown \<Rightarrow> 'd world \<Rightarrow> 'd world" where
  "catchBlock this now ident channel error w =
     (case error of
        ErrorObj m \<Rightarrow> orUnhandled (sendError this now ident m channel w) w
      | NonError s \<Rightarrow> orUnhandled (sendError this now ident s channel w) w
      | Unstringable e \<Rightarrow> unhandledRejection e w)"

text \<open>
  The rest of the \<^verbatim>\<open>try\<close> block after the \<^verbatim>\<open>await\<close>: \<^verbatim>\<open>sendResponse\<close>, whose exception
  (a \<^verbatim>\<open>DOMException\<close>, which is an \<^verbatim>\<open>Error\<close>) goes to the \<^verbatim>\<open>catch\<close> block.
\<close>

definition afterAwait ::
  "'d XFrameBridge \<Rightarrow> int \<Rightarrow> jsval \<Rightarrow> string option \<Rightarrow> 'd option \<Rightarrow> 'd world \<Rightarrow> 'd world" where
  "afterAwait this now ident channel result w =
     (case sendResponse this now ident result channel w of
        Inl e \<Rightarrow> catchBlock this now ident channel (ErrorObj e) w
      | Inr w1 \<Rightarrow> w1)"

text \<open>
  \<^verbatim>\<open>handleRequest\<close>, up to the point where it returns or suspends. Awaiting a plain
  value resumes before the window runs anything else, so the reply is part of this step;
  awaiting a promise suspends the call until the promise settles.
\<close>

definition handleRequest :: "'d XFrameBridge \<Rightarrow> int \<Rightarrow> 'd Message \<Rightarrow> 'd world \<Rightarrow> 'd world" where
  "handleRequest this now message w =
     (let key = getHandlerKey this (msg_method message) (msg_channel message)
      in case Map_get (handlers w) key of
           None \<Rightarrow>
             orUnhandled
               (sendError this now (msg_id message)
                  (''No handler for method: '' @ tmpl (msg_method message)) (msg_channel message) w)
               w
         | Some handler \<Rightarrow>
             let w1 = w\<lparr>calls := calls w @ [HandlerCall (tmpl key) (msg_data message)]\<rparr>
             in (case handler (msg_data message) of
                   Returns result \<Rightarrow>
                     afterAwait this now (msg_id message) (msg_channel message) result w1
                 | Throws error \<Rightarrow>
                     catchBlock this now (msg_id message) (msg_channel message) error w1
                 | Promise p \<Rightarrow>
                     w1\<lparr>awaiting := AList.update (nextAwait w1)
                           \<lparr>su_this = this, su_id = msg_id message,
                            su_channel = msg_channel message, su_outcome = p\<rparr> (awaiting w1),
                        nextAwait := Suc (nextAwait w1)\<rparr>))"

text \<open>
  The promise a suspended call of \<^verbatim>\<open>handleRequest\<close> waits for settles, and the call
  resumes; \<open>now\<close> is the clock the reply reads. A promise that never settles leaves the
  call suspended.
\<close>

definition handlerSettles :: "nat \<Rightarrow> int \<Rightarrow> 'd world \<Rightarrow> 'd world" where
  "handlerSettles k now w =
     (case map_of (awaiting w) k of
        None \<Rightarrow> w
      | Some su \<Rightarrow>
          (case su_outcome su of
             NeverSettles \<Rightarrow> w
           | Fulfils result \<Rightarrow>
               afterAwait (su_this su) now (su_id su) (su_channel su) result
                 (w\<lparr>awaiting := AList.delete k (awaiting w)\<rparr>)
           | Rejects error \<Rightarrow>
               catchBlock (su_this su) now (su_id su) (su_channel su) error
                 (w\<lparr>awaiting := AList.delete k (awaiting w)\<rparr>)))"

definition handleResponse :: "'d XFrameBridge \<Rightarrow> 'd Message \<Rightarrow> 'd world \<Rightarrow> 'd world" where
  "handleResponse this message w =
     (case Map_get_js (pendingRequests w) (msg_id message) of
        None \<Rightarrow> w
      | Some pending \<Rightarrow>
          if pr_channel pending \<noteq> msg_channel message
          then log this ''Response channel mismatch'' w
          else let w1 = clearTimeout (pr_timer pending) w;
                   w2 = w1\<lparr>pendingRequests := Map_delete_js (msg_id message) (pendingRequests w1)\<rparr>
               in if msg_type message = JStr MT_ERROR
                  then reject (pr_promise pending)
                         (if truthy_str (msg_error message) then tmpl (msg_error message)
                          else ''Unknown error'') w2
                  else resolve (pr_promise pending) (msg_data message) w2)"

text \<open>The loop of \<^verbatim>\<open>handleEvent\<close> over the listeners of the event.\<close>

fun invokeAll ::
  "'d XFrameBridge \<Rightarrow> 'd EventHandler list \<Rightarrow> 'd option \<Rightarrow> 'd world \<Rightarrow> 'd world" where
  "invokeAll this [] data w = w"
| "invokeAll this (h # hs) data w =
     invokeAll this hs data
       (let w1 = w\<lparr>calls := calls w @ [ListenerCall (identity h) data]\<rparr>
        in if throws h data then log this ''Event handler error'' w1 else w1)"

definition handleEvent :: "'d XFrameBridge \<Rightarrow> 'd Message \<Rightarrow> 'd world \<Rightarrow> 'd world" where
  "handleEvent this message w =
     (let key = getHandlerKey this (msg_method message) (msg_channel message)
      in case Map_get (eventHandlers w) key of
           None \<Rightarrow> w
         | Some hs \<Rightarrow> if length hs = 0 then w else invokeAll this hs (msg_data message) w)"

text \<open>
  \<^verbatim>\<open>isValidMessage(message: any)\<close>. Reading a property of a primitive or of an object
  that lacks it gives \<^verbatim>\<open>undefined\<close>.
\<close>

fun truthy_data :: "'d event_data \<Rightarrow> bool" where
  "truthy_data (Primitive v) = truthy v"
| "truthy_data (Object m) = True"

fun typeof_data :: "'d event_data \<Rightarrow> string" where
  "typeof_data (Primitive v) = typeof v"
| "typeof_data (Object m) = ''object''"

fun property :: "('d Message \<Rightarrow> jsval) \<Rightarrow> 'd event_data \<Rightarrow> jsval" where
  "property field (Primitive v) = JUndefined"
| "property field (Object m) = field m"

definition isValidMessage :: "'d event_data \<Rightarrow> bool" where
  "isValidMessage message \<longleftrightarrow>
     truthy_data message \<and>
     typeof_data message = ''object'' \<and>
     property msg_protocol message = JStr PROTOCOL_ID \<and>
     typeof (property msg_id message) = ''string'' \<and>
     typeof (property msg_type message) = ''string'' \<and>
     typeof (property msg_timestamp message) = ''number''"

text \<open>
  \<^verbatim>\<open>handleMessage\<close>, the listener of the root. \<open>now\<close> is the clock read by
  \<^verbatim>\<open>sendResponse\<close> or \<^verbatim>\<open>sendError\<close>.
\<close>

definition handleMessage ::
  "'d XFrameBridge \<Rightarrow> int \<Rightarrow> 'd MessageEvent \<Rightarrow> 'd world \<Rightarrow> 'd world" where
  "handleMessage this now event w =
     (if targetOrigin this \<noteq> ''*'' \<and> ev_origin event \<noteq> targetOrigin this then w
      else if \<not> isValidMessage (ev_data event) then w
      else case ev_data event of
             Primitive v \<Rightarrow> w
           | Object message \<Rightarrow>
               let w1 = log this ''Message received'' w
               in if msg_type message = JStr MT_REQUEST then handleRequest this now message w1
                  else if msg_type message = JStr MT_RESPONSE \<or> msg_type message = JStr MT_ERROR
                  then handleResponse this message w1
                  else if msg_type message = JStr MT_EVENT then handleEvent this message w1
                  else w1)"

definition channel ::
  "'d XFrameBridge \<Rightarrow> string \<Rightarrow> 'd world \<Rightarrow> 'd XFrameBridge \<times> 'd world" where
  "channel this name w =
     constructor (target this)
       \<lparr>opt_targetOrigin = Some (targetOrigin this), opt_timeout = Some (timeout this),
        opt_debug = Some (debug this)\<rparr>
       (Some name) True w"

section \<open>The window around the bridge\<close>

text \<open>
  The window calls the listener of the root while it is subscribed, and delivers a
  message posted with a target origin only to a window of that origin (or to any window
  for the wildcard).
\<close>

definition window_message ::
  "'d XFrameBridge \<Rightarrow> int \<Rightarrow> 'd MessageEvent \<Rightarrow> 'd world \<Rightarrow> 'd world" where
  "window_message root now event w =
     (if messageHandler w then handleMessage root now event w else w)"

definition transport :: "string \<Rightarrow> string \<Rightarrow> 'd Message \<times> string \<Rightarrow> 'd MessageEvent option" where
  "transport senderOrigin receiverOrigin posted =
     (if snd posted = ''*'' \<or> snd posted = receiverOrigin
      then Some \<lparr>ev_origin = senderOrigin, ev_data = Object (fst posted)\<rparr>
      else None)"

text \<open>
  Everything that can happen to the state of one root, and runs of such steps. An
  exception of \<^verbatim>\<open>emit\<close> goes to the caller and leaves the state as it was.
\<close>

datatype 'd action =
    DoRequest "'d XFrameBridge" string int string "'d option"
  | DoOn "'d XFrameBridge" string "'d RequestHandler"
  | DoEmit "'d XFrameBridge" string int string "'d option"
  | DoListen "'d XFrameBridge" string "'d EventHandler"
  | DoOff "'d XFrameBridge" string "'d EventHandler option"
  | DoChannel "'d XFrameBridge" string
  | DoDestroy "'d XFrameBridge"
  | Receive "'d XFrameBridge" int "'d MessageEvent"
  | Timeout nat
  | HandlerSettles nat int

fun step :: "'d action \<Rightarrow> 'd world \<Rightarrow> 'd world" where
  "step (DoRequest this ident now method data) w = snd (request this ident now method data w)"
| "step (DoOn this method handler) w = on this method handler w"
| "step (DoEmit this ident now event data) w =
     (case emit this ident now event data w of Inl e \<Rightarrow> w | Inr w1 \<Rightarrow> w1)"
| "step (DoListen this event handler) w = listen this event handler w"
| "step (DoOff this event handler) w = off this event handler w"
| "step (DoChannel this name) w = snd (channel this name w)"
| "step (DoDestroy this) w = destroy this w"
| "step (Receive root now event) w = window_message root now event w"
| "step (Timeout t) w = fireTimer t w"
| "step (HandlerSettles k now) w = handlerSettles k now w"

definition run :: "'d action list \<Rightarrow> 'd world \<Rightarrow> 'd world" where
  "run acts w = fold step acts w"

text \<open>The state in which the constructor of a root starts.\<close>

definition empty_world :: "'d world" where
  "empty_world =
     \<lparr>handlers = [], eventHandlers = [], pendingRequests = [], messageHandler = False,
      timers = [], nextTimer = 0, nextPromise = 0, awaiting = [], nextAwait = 0,
      outbox = [], settled = [], calls = [], unhandledRejections = [], console = []\<rparr>"

section \<open>Schedules\<close>

text \<open>
  Steps that leave the request with identifier \<open>ident\<close> and timer \<open>t\<close> in flight: every
  step but a teardown, the firing of \<open>t\<close>, a reply carrying \<open>ident\<close>, and another request
  for which \<^verbatim>\<open>generateId\<close> gives \<open>ident\<close> again.
\<close>

fun keeps_request :: "string \<Rightarrow> nat \<Rightarrow> 'd action \<Rightarrow> bool" where
  "keeps_request ident t (DoRequest this ident' now method data) = (ident' \<noteq> ident)"
| "keeps_request ident t (DoDestroy this) = False"
| "keeps_request ident t (Receive root now event) =
     (case ev_data event of
        Primitive v \<Rightarrow> True
      | Object m \<Rightarrow>
          \<not> (msg_id m = JStr ident \<and>
             (msg_type m = JStr MT_RESPONSE \<or> msg_type m = JStr MT_ERROR)))"
| "keeps_request ident t (Timeout t') = (t' \<noteq> t)"
| "keeps_request ident t other = True"

text \<open>
  Steps that leave the handler registered under \<open>key\<close> and the subscription of the root
  in place: every step but a teardown and a registration under the same key.
\<close>

fun keeps_handler :: "string \<Rightarrow> 'd action \<Rightarrow> bool" where
  "keeps_handler key (DoOn this method handler) =
     (getHandlerKey this (Some method) None \<noteq> Some key)"
| "keeps_handler key (DoDestroy this) = False"
| "keeps_handler key other = True"

text \<open>Steps other than the settling of the promise that the suspended call \<open>k\<close> awaits.\<close>

fun keeps_awaiting :: "nat \<Rightarrow> 'd action \<Rightarrow> bool" where
  "keeps_awaiting k (HandlerSettles k' now) = (k' \<noteq> k)"
| "keeps_awaiting k other = True"

section \<open>The condition for routing\<close>

text \<open>
  The condition under which the specification routes an inbound message, written after
  its words, with any string as identifier: the origin matches when one is configured,
  the marker is the protocol constant, the identifier is a string, the kind is one of
  the four kinds, and the timestamp is a number.
\<close>

fun is_string :: "jsval \<Rightarrow> bool" where
  "is_string (JStr s) = True"
| "is_string _ = False"

fun is_number :: "jsval \<Rightarrow> bool" where
  "is_number (JNum n) = True"
| "is_number _ = False"

definition routing_condition :: "'d XFrameBridge \<Rightarrow> 'd MessageEvent \<Rightarrow> bool" where
  "routing_condition this event \<longleftrightarrow>
     (targetOrigin this = ''*'' \<or> ev_origin event = targetOrigin this) \<and>
     (case ev_data event of
        Primitive v \<Rightarrow> False
      | Object m \<Rightarrow>
          msg_protocol m = JStr PROTOCOL_ID \<and>
          is_string (msg_id m) \<and>
          msg_type m \<in> {JStr MT_REQUEST, JStr MT_RESPONSE, JStr MT_EVENT, JStr MT_ERROR} \<and>
          is_number (msg_timestamp m))"

section \<open>Example configurations\<close>

text \<open>
  A target window that accepts the wildcard and \<^verbatim>\<open>https\<close> origins and clones every
  payload but 13. A root that accepts one origin and logs, three of its channels, and a
  request issued on the channel \<open>a\<close>. Payloads are natural numbers here.
\<close>

definition ex_window :: "nat Window" where
  "ex_window =
     \<lparr>originError = (\<lambda>origin. if origin = ''*'' \<or> prefix ''https://'' origin then None
                             else Some ''Invalid target origin''),
      clone = (\<lambda>d. if d = 13 then Inl ''13 could not be cloned'' else Inr d)\<rparr>"

definition ex_root :: "nat XFrameBridge" where
  "ex_root =
     new_bridge ex_window
       \<lparr>opt_targetOrigin = Some ''https://a.test'', opt_timeout = None, opt_debug = Some True\<rparr>
       None False"

definition ex_a :: "nat XFrameBridge" where
  "ex_a = fst (channel ex_root ''a'' empty_world)"

definition ex_b :: "nat XFrameBridge" where
  "ex_b = fst (channel ex_root ''b'' empty_world)"

definition ex_e :: "nat XFrameBridge" where
  "ex_e = fst (channel ex_root '''' empty_world)"

definition ex_started :: "nat world" where
  "ex_started =
     snd (constructor ex_window
            \<lparr>opt_targetOrigin = Some ''https://a.test'', opt_timeout = None,
             opt_debug = Some True\<rparr> None False empty_world)"

definition ex_requested :: "nat world" where
  "ex_requested = snd (request ex_a ''r1'' 10 ''ping'' (Some 1) ex_started)"

definition ex_message :: "jsval \<Rightarrow> string \<Rightarrow> string option \<Rightarrow> string option \<Rightarrow> nat Message" where
  "ex_message ident kind method chName =
     \<lparr>msg_protocol = JStr PROTOCOL_ID, msg_id = ident, msg_type = JStr kind,
      msg_method = method, msg_channel = chName, msg_data = Some 2, msg_error = None,
      msg_timestamp = JNum (Num 11)\<rparr>"

definition ex_event :: "nat Message \<Rightarrow> nat MessageEvent" where
  "ex_event message = \<lparr>ev_origin = ''https://a.test'', ev_data = Object message\<rparr>"

definition ex_double :: "nat RequestHandler" where
  "ex_double data = (case data of None \<Rightarrow> Throws (ErrorObj ''no data'') | Some n \<Rightarrow> Returns (Some (2 * n)))"

text \<open>A handler that answers later, and one whose result cannot be cloned.\<close>

definition ex_later :: "nat RequestHandler" where
  "ex_later data = Promise (Fulfils data)"

definition ex_thirteen :: "nat RequestHandler" where
  "ex_thirteen data = Returns (Some 13)"

text \<open>Handlers of the root and of both channels, and a pending request of each channel.\<close>

definition ex_busy :: "nat world" where
  "ex_busy =
     snd (request ex_b ''r2'' 11 ''pong'' None
       (on ex_b ''pong'' ex_double
         (on ex_a ''ping'' ex_double (on ex_root ''ping'' ex_double ex_requested))))"

text \<open>The peer of \<open>ex_root\<close>: a root that accepts every origin, and its channel \<open>a\<close>.\<close>

definition ex_peer :: "nat XFrameBridge" where
  "ex_peer =
     new_bridge ex_window \<lparr>opt_targetOrigin = None, opt_timeout = None, opt_debug = None\<rparr>
       None False"

definition ex_peer_a :: "nat XFrameBridge" where
  "ex_peer_a = fst (channel ex_peer ''a'' empty_world)"

definition ex_peer_started :: "nat world" where
  "ex_peer_started =
     snd (constructor ex_window
            \<lparr>opt_targetOrigin = None, opt_timeout = None, opt_debug = None\<rparr>
            None False empty_world)"

definition ex_request_event :: "nat MessageEvent" where
  "ex_request_event =
     \<lparr>ev_origin = ''https://host.test'',
      ev_data = Object \<lparr>msg_protocol = JStr PROTOCOL_ID, msg_id = JStr ''r1'',
                        msg_type = JStr MT_REQUEST, msg_method = Some ''ping'',
                        msg_channel = Some ''a'', msg_data = Some 1, msg_error = None,
                        msg_timestamp = JNum (Num 10)\<rparr>\<rparr>"

section \<open>Properties\<close>

subsection \<open>What each operation leaves alone\<close>

lemma getHandlerKey_string: "getHandlerKey this (Some method) ch \<noteq> None"
  by (simp add: getHandlerKey_def Let_def)

lemma log_fields [simp]:
  "handlers (log this message w) = handlers w"
  "eventHandlers (log this message w) = eventHandlers w"
  "pendingRequests (log this message w) = pendingRequests w"
  "messageHandler (log this message w) = messageHandler w"
  "timers (log this message w) = timers w"
  "nextTimer (log this message w) = nextTimer w"
  "nextPromise (log this message w) = nextPromise w"
  "awaiting (log this message w) = awaiting w"
  "nextAwait (log this message w) = nextAwait w"
  "outbox (log this message w) = outbox w"
  "settled (log this message w) = settled w"
  "calls (log this message w) = calls w"
  "unhandledRejections (log this message w) = unhandledRejections w"
  by (simp_all add: log_def Let_def)

lemmas reply_defs = afterAwait_def catchBlock_def orUnhandled_def unhandledRejection_def
  sendResponse_def sendError_def postMessage_def

lemma catchBlock_fields [simp]:
  "handlers (catchBlock this now ident ch error w) = handlers w"
  "eventHandlers (catchBlock this now ident ch error w) = eventHandlers w"
  "pendingRequests (catchBlock this now ident ch error w) = pendingRequests w"
  "messageHandler (catchBlock this now ident ch error w) = messageHandler w"
  "timers (catchBlock this now ident ch error w) = timers w"
  "nextTimer (catchBlock this now ident ch error w) = nextTimer w"
  "nextPromise (catchBlock this now ident ch error w) = nextPromise w"
  "awaiting (catchBlock this now ident ch error w) = awaiting w"
  "nextAwait (catchBlock this now ident ch error w) = nextAwait w"
  "settled (catchBlock this now ident ch error w) = settled w"
  "calls (catchBlock this now ident ch error w) = calls w"
  by (simp_all add: reply_defs Let_def split: thrown.splits sum.splits)

lemma afterAwait_fields [simp]:
  "handlers (afterAwait this now ident ch result w) = handlers w"
  "eventHandlers (afterAwait this now ident ch result w) = eventHandlers w"
  "pendingRequests (afterAwait this now ident ch result w) = pendingRequests w"
  "messageHandler (afterAwait this now ident ch result w) = messageHandler w"
  "timers (afterAwait this now ident ch result w) = timers w"
  "nextTimer (afterAwait this now ident ch result w) = nextTimer w"
  "nextPromise (afterAwait this now ident ch result w) = nextPromise w"
  "awaiting (afterAwait this now ident ch result w) = awaiting w"
  "nextAwait (afterAwait this now ident ch result w) = nextAwait w"
  "settled (afterAwait this now ident ch result w) = settled w"
  "calls (afterAwait this now ident ch result w) = calls w"
  by (simp_all add: afterAwait_def sendResponse_def postMessage_def Let_def split: sum.splits)

lemma orUnhandled_sendError_fields [simp]:
  "handlers (orUnhandled (sendError this now ident e ch w) w) = handlers w"
  "eventHandlers (orUnhandled (sendError this now ident e ch w) w) = eventHandlers w"
  "pendingRequests (orUnhandled (sendError this now ident e ch w) w) = pendingRequests w"
  "messageHandler (orUnhandled (sendError this now ident e ch w) w) = messageHandler w"
  "timers (orUnhandled (sendError this now ident e ch w) w) = timers w"
  "nextTimer (orUnhandled (sendError this now ident e ch w) w) = nextTimer w"
  "nextPromise (orUnhandled (sendError this now ident e ch w) w) = nextPromise w"
  "awaiting (orUnhandled (sendError this now ident e ch w) w) = awaiting w"
  "nextAwait (orUnhandled (sendError this now ident e ch w) w) = nextAwait w"
  "settled (orUnhandled (sendError this now ident e ch w) w) = settled w"
  "calls (orUnhandled (sendError this now ident e ch w) w) = calls w"
  by (simp_all add: reply_defs Let_def split: sum.splits)

lemma request_outbox:
  "outbox (snd (request this ident now method data w)) =
     outbox w @
     (case Window_postMessage (target this) data (targetOrigin this) of
        Inl e \<Rightarrow> []
      | Inr d \<Rightarrow>
          [(\<lparr>msg_protocol = JStr PROTOCOL_ID, msg_id = JStr ident,
             msg_type = JStr MT_REQUEST, msg_method = Some method,
             msg_channel = channelName this, msg_data = d, msg_error = None,
             msg_timestamp = JNum (Num now)\<rparr>, targetOrigin this)])"
  by (simp add: request_def Let_def postMessage_def reject_def split: sum.splits)

lemma handleRequest_calls:
  "calls (handleRequest this now message w) =
     calls w @
     (case Map_get (handlers w) (getHandlerKey this (msg_method message) (msg_channel message)) of
        None \<Rightarrow> []
      | Some h \<Rightarrow>
          [HandlerCall (tmpl (getHandlerKey this (msg_method message) (msg_channel message)))
             (msg_data message)])"
  by (simp add: handleRequest_def Let_def split: option.splits hresult.splits)

lemma map_of_on_other:
  "getHandlerKey this (Some m) None \<noteq> Some k \<Longrightarrow>
   map_of (handlers (on this m h w)) k = map_of (handlers w) k"
  by (auto simp add: on_def update_conv' split: option.splits)

lemma reply_outbox_cong:
  assumes "outbox w' = outbox w"
  shows "outbox (orUnhandled (sendError this now ident e ch w') w') =
           outbox (orUnhandled (sendError this now ident e ch w) w)"
    and "outbox (catchBlock this now ident ch error w') =
           outbox (catchBlock this now ident ch error w)"
    and "outbox (afterAwait this now ident ch result w') =
           outbox (afterAwait this now ident ch result w)"
  using assms by (simp_all add: reply_defs Let_def split: thrown.splits sum.splits)

lemma handleRequest_on:
  assumes "getHandlerKey this (Some m) None \<noteq>
           getHandlerKey root (msg_method message) (msg_channel message)"
  shows "calls (handleRequest root now message (log root s (on this m h w))) =
           calls (handleRequest root now message (log root s w)) \<and>
         outbox (handleRequest root now message (log root s (on this m h w))) =
           outbox (handleRequest root now message (log root s w))"
proof -
  have fr: "calls (on this m h w) = calls w" "outbox (on this m h w) = outbox w"
    by (simp_all add: on_def split: option.splits)
  have look: "Map_get (handlers (on this m h w))
                (getHandlerKey root (msg_method message) (msg_channel message)) =
              Map_get (handlers w)
                (getHandlerKey root (msg_method message) (msg_channel message))"
  proof (cases "getHandlerKey root (msg_method message) (msg_channel message)")
    case None
    then show ?thesis by simp
  next
    case (Some k)
    with assms have "map_of (handlers (on this m h w)) k = map_of (handlers w) k"
      by (intro map_of_on_other) simp
    with Some show ?thesis by simp
  qed
  have c: "calls (handleRequest root now message (log root s (on this m h w))) =
           calls (handleRequest root now message (log root s w))"
    by (simp add: handleRequest_calls look fr)
  have o: "outbox (handleRequest root now message (log root s (on this m h w))) =
           outbox (handleRequest root now message (log root s w))"
    by (auto simp add: handleRequest_def Let_def look fr
        intro!: reply_outbox_cong split: option.splits hresult.splits)
  from c o show ?thesis by simp
qed

lemma handleMessage_response:
  assumes "targetOrigin this = ''*'' \<or> ev_origin event = targetOrigin this"
    and "ev_data event = Object message"
    and "isValidMessage (Object message)"
    and "msg_type message = JStr MT_RESPONSE \<or> msg_type message = JStr MT_ERROR"
  shows "handleMessage this now event w =
           handleResponse this message (log this ''Message received'' w)"
  using assms
  by (auto simp add: handleMessage_def Let_def MT_REQUEST_def MT_RESPONSE_def MT_ERROR_def)

lemma typeof_string: "typeof v = ''string'' \<longleftrightarrow> is_string v"
  by (cases v) simp_all

lemma typeof_number: "typeof v = ''number'' \<longleftrightarrow> is_number v"
  by (cases v) simp_all

lemma isValidMessage_Object:
  "isValidMessage (Object m) \<longleftrightarrow>
     msg_protocol m = JStr PROTOCOL_ID \<and> is_string (msg_id m) \<and> is_string (msg_type m) \<and>
     is_number (msg_timestamp m)"
  by (simp add: isValidMessage_def typeof_string typeof_number)

lemma isValidMessage_Primitive: "\<not> isValidMessage (Primitive v)"
  by (cases v) (simp_all add: isValidMessage_def)

lemma handleMessage_request:
  assumes "targetOrigin this = ''*'' \<or> ev_origin event = targetOrigin this"
    and "ev_data event = Object message"
    and "isValidMessage (Object message)"
    and "msg_type message = JStr MT_REQUEST"
  shows "handleMessage this now event w =
           handleRequest this now message (log this ''Message received'' w)"
  using assms by (auto simp add: handleMessage_def Let_def)

text \<open>The definitions a concrete run unfolds.\<close>

lemmas ex_defs = ex_message_def ex_event_def ex_double_def getHandlerKey_def
  handleMessage_def handleRequest_def handleResponse_def on_def log_def reply_defs
  reject_def resolve_def clearTimeout_def PROTOCOL_ID_def
  MT_REQUEST_def MT_RESPONSE_def MT_ERROR_def MT_EVENT_def Let_def

text \<open>The example configurations, evaluated.\<close>

lemma ex_window_post:
  "Window_postMessage ex_window None ''https://a.test'' = Inr None"
  "Window_postMessage ex_window None ''*'' = Inr None"
  "Window_postMessage ex_window (Some d) ''https://a.test'' =
     (if d = 13 then Inl ''13 could not be cloned'' else Inr (Some d))"
  "Window_postMessage ex_window (Some d) ''*'' =
     (if d = 13 then Inl ''13 could not be cloned'' else Inr (Some d))"
  by (simp_all add: Window_postMessage_def ex_window_def)

lemma ex_bridges:
  "ex_root = \<lparr>target = ex_window, targetOrigin = ''https://a.test'', timeout = Num 30000,
              debug = True, channelName = None, isRootBridge = True\<rparr>"
  "ex_a = \<lparr>target = ex_window, targetOrigin = ''https://a.test'', timeout = Num 30000,
           debug = True, channelName = Some ''a'', isRootBridge = False\<rparr>"
  "ex_b = \<lparr>target = ex_window, targetOrigin = ''https://a.test'', timeout = Num 30000,
           debug = True, channelName = Some ''b'', isRootBridge = False\<rparr>"
  "ex_e = \<lparr>target = ex_window, targetOrigin = ''https://a.test'', timeout = Num 30000,
           debug = True, channelName = Some '''', isRootBridge = False\<rparr>"
  by (simp_all add: ex_root_def ex_a_def ex_b_def ex_e_def channel_def constructor_def
      new_bridge_def Let_def)

lemma ex_started_eval:
  "ex_started =
     \<lparr>handlers = [], eventHandlers = [], pendingRequests = [], messageHandler = True,
      timers = [], nextTimer = 0, nextPromise = 0, awaiting = [], nextAwait = 0,
      outbox = [], settled = [], calls = [], unhandledRejections = [],
      console = [''[XFrameBridge] Bridge initialized'']\<rparr>"
  by (simp add: ex_started_def constructor_def new_bridge_def empty_world_def log_def Let_def)

lemma ex_requested_eval:
  "ex_requested =
     \<lparr>handlers = [], eventHandlers = [],
      pendingRequests = [(''r1'', \<lparr>pr_promise = 0, pr_timer = 0, pr_channel = Some ''a''\<rparr>)],
      messageHandler = True,
      timers = [(0, \<lparr>cb_id = ''r1'', cb_method = ''ping'', cb_promise = 0,
                     cb_delay = Num 30000\<rparr>)],
      nextTimer = 1, nextPromise = 1, awaiting = [], nextAwait = 0,
      outbox = [(\<lparr>msg_protocol = JStr PROTOCOL_ID, msg_id = JStr ''r1'',
                  msg_type = JStr MT_REQUEST, msg_method = Some ''ping'',
                  msg_channel = Some ''a'', msg_data = Some 1, msg_error = None,
                  msg_timestamp = JNum (Num 10)\<rparr>, ''https://a.test'')],
      settled = [], calls = [], unhandledRejections = [],
      console = [''[XFrameBridge] Bridge initialized'', ''[XFrameBridge:a] Request sent'']\<rparr>"
  by (simp add: ex_requested_def ex_started_eval ex_bridges request_def postMessage_def
      ex_window_post log_def Let_def)

lemma ex_busy_fields:
  "handlers ex_busy = [(''ping'', ex_double), (''a:ping'', ex_double), (''b:pong'', ex_double)]"
  "eventHandlers ex_busy = []"
  "pendingRequests ex_busy =
     [(''r1'', \<lparr>pr_promise = 0, pr_timer = 0, pr_channel = Some ''a''\<rparr>),
      (''r2'', \<lparr>pr_promise = 1, pr_timer = 1, pr_channel = Some ''b''\<rparr>)]"
  "timers ex_busy =
     [(0, \<lparr>cb_id = ''r1'', cb_method = ''ping'', cb_promise = 0, cb_delay = Num 30000\<rparr>),
      (1, \<lparr>cb_id = ''r2'', cb_method = ''pong'', cb_promise = 1, cb_delay = Num 30000\<rparr>)]"
  "settled ex_busy = []"
  "nextPromise ex_busy = 2"
  "calls ex_busy = []"
  "unhandledRejections ex_busy = []"
  "messageHandler ex_busy"
  by (simp_all add: ex_busy_def ex_requested_eval ex_bridges request_def on_def
      getHandlerKey_def log_def postMessage_def ex_window_post Let_def)

subsection \<open>Channel isolation\<close>

text \<open>
  Claim C5. For two distinct non-empty channel names \<open>a\<close> and \<open>b\<close> and a method \<open>m\<close>,
  the key under which \<open>on(m, h)\<close> on channel \<open>a\<close> stores \<open>h\<close> differs from the key the
  dispatcher looks up for the message that \<open>request(m, p)\<close> on channel \<open>b\<close> posts. So
  handling that message invokes at most the handler stored under the key of \<open>b\<close>, with
  the payload the message carries, and what it does is the same whether or not \<open>h\<close>
  was registered on \<open>a\<close>. The statement is symmetric in \<open>a\<close> and \<open>b\<close>.
\<close>

theorem C5_channels_do_not_collide:
  fixes w :: "'d world" and w' :: "'d world"
  assumes "a \<noteq> b" and "a \<noteq> []" and "b \<noteq> []"
    and "channelName chA = Some a" and "channelName chB = Some b"
    and "outbox (snd (request chB ident t m p w')) = outbox w' @ [(message, tgt)]"
    and "ev_data event = Object message"
  shows "getHandlerKey chA (Some m) None = Some (a @ '':'' @ m) \<and>
         getHandlerKey root (msg_method message) (msg_channel message) = Some (b @ '':'' @ m) \<and>
         a @ '':'' @ m \<noteq> b @ '':'' @ m \<and>
         map_of (handlers (on chA m h w)) (b @ '':'' @ m) = map_of (handlers w) (b @ '':'' @ m) \<and>
         calls (handleMessage root now event (on chA m h w)) =
           calls (handleMessage root now event w) \<and>
         outbox (handleMessage root now event (on chA m h w)) =
           outbox (handleMessage root now event w) \<and>
         set (calls (handleMessage root now event (on chA m h w))) \<subseteq>
           set (calls w) \<union> {HandlerCall (b @ '':'' @ m) (msg_data message)}"
proof -
  from assms(6) obtain d where msg: "message = \<lparr>msg_protocol = JStr PROTOCOL_ID,
                   msg_id = JStr ident, msg_type = JStr MT_REQUEST, msg_method = Some m,
                   msg_channel = channelName chB, msg_data = d, msg_error = None,
                   msg_timestamp = JNum (Num t)\<rparr>"
    by (auto simp add: request_outbox split: sum.splits)
  have kA: "getHandlerKey chA (Some m) None = Some (a @ '':'' @ m)"
    using assms by (simp add: getHandlerKey_def)
  have kB: "getHandlerKey root (msg_method message) (msg_channel message) = Some (b @ '':'' @ m)"
    using assms msg by (simp add: getHandlerKey_def)
  have ne: "a @ '':'' @ m \<noteq> b @ '':'' @ m"
    using assms(1) by simp
  have look: "map_of (handlers (on chA m h w)) (b @ '':'' @ m) = map_of (handlers w) (b @ '':'' @ m)"
    using kA ne by (intro map_of_on_other) simp
  have valid: "isValidMessage (Object message)"
    by (simp add: msg isValidMessage_def)
  have ty: "msg_type message = JStr MT_REQUEST"
    by (simp add: msg)
  have hm: "\<And>v :: 'd world. handleMessage root now event v =
      (if targetOrigin root \<noteq> ''*'' \<and> ev_origin event \<noteq> targetOrigin root then v
       else handleRequest root now message (log root ''Message received'' v))"
    using valid ty assms(7) by (simp add: handleMessage_def Let_def)
  have on_frame: "calls (on chA m h w) = calls w" "outbox (on chA m h w) = outbox w"
    by (simp_all add: on_def split: option.splits)
  have eqs: "calls (handleMessage root now event (on chA m h w)) =
           calls (handleMessage root now event w) \<and>
         outbox (handleMessage root now event (on chA m h w)) =
           outbox (handleMessage root now event w)"
    using handleRequest_on [of chA m root message now "''Message received''" h w] kA kB ne
    by (simp add: hm on_frame)
  have sub: "set (calls (handleMessage root now event w)) \<subseteq>
           set (calls w) \<union> {HandlerCall (b @ '':'' @ m) (msg_data message)}"
    using kB by (auto simp add: hm handleRequest_calls split: option.splits)
  from kA kB ne look eqs sub show ?thesis by simp
qed

theorem C5_channels_do_not_collide_witness:
  "''a'' \<noteq> ''b'' \<and> ''a'' \<noteq> [] \<and> ''b'' \<noteq> [] \<and>
   channelName ex_a = Some ''a'' \<and> channelName ex_b = Some ''b'' \<and>
   outbox (snd (request ex_b ''r9'' 11 ''ping'' (Some 2) ex_started)) =
     outbox ex_started @
       [(ex_message (JStr ''r9'') MT_REQUEST (Some ''ping'') (Some ''b''), ''https://a.test'')] \<and>
   calls (handleMessage ex_root 12
            (ex_event (ex_message (JStr ''r9'') MT_REQUEST (Some ''ping'') (Some ''b'')))
            (on ex_a ''ping'' ex_double ex_started)) = []"
proof -
  have names: "channelName ex_a = Some ''a''" "channelName ex_b = Some ''b''"
    by (simp_all add: ex_bridges)
  have posted: "outbox (snd (request ex_b ''r9'' 11 ''ping'' (Some 2) ex_started)) =
     outbox ex_started @
       [(ex_message (JStr ''r9'') MT_REQUEST (Some ''ping'') (Some ''b''), ''https://a.test'')]"
    by (simp add: request_outbox ex_bridges ex_window_post ex_message_def)
  have before: "calls (handleMessage ex_root 12
            (ex_event (ex_message (JStr ''r9'') MT_REQUEST (Some ''ping'') (Some ''b'')))
            ex_started) = []"
    by (simp add: ex_bridges ex_started_eval isValidMessage_Object ex_defs ex_window_post)
  from C5_channels_do_not_collide [of "''a''" "''b''" ex_a ex_b "''r9''" 11 "''ping''" "Some 2"
      ex_started "ex_message (JStr ''r9'') MT_REQUEST (Some ''ping'') (Some ''b'')"
      "''https://a.test''"
      "ex_event (ex_message (JStr ''r9'') MT_REQUEST (Some ''ping'') (Some ''b''))"
      ex_root ex_double ex_started 12] names posted before
  show ?thesis
    by (simp add: ex_event_def)
qed

subsection \<open>Removing listeners\<close>

text \<open>
  Claim C7. Let \<open>key\<close> be the qualified key of \<open>event\<close> on this instance. Then
  \<open>off(event)\<close> leaves no listener set under \<open>key\<close>; \<open>off(event, l)\<close> replaces the set
  under \<open>key\<close> by the same listeners in the same order without \<open>l\<close> (listeners are
  compared by identity), and drops the key when nothing is left; when there is no set
  under \<open>key\<close>, either form leaves the listener map as it is; and in every case the sets
  of other keys, the request handlers, the pending requests and the traces of effects
  are unchanged. The model has no failing branch: \<open>off\<close> always returns.
\<close>

theorem C7_off_removes_listeners:
  assumes key: "getHandlerKey this (Some event) None = Some key"
  shows "map_of (eventHandlers (off this event None w)) key = None \<and>
         (\<forall>hs. map_of (eventHandlers w) key = Some hs \<longrightarrow>
            map_of (eventHandlers (off this event (Some l) w)) key =
              (if filter (\<lambda>h. identity h \<noteq> identity l) hs = [] then None
               else Some (filter (\<lambda>h. identity h \<noteq> identity l) hs))) \<and>
         (map_of (eventHandlers w) key = None \<longrightarrow>
            eventHandlers (off this event handler w) = eventHandlers w) \<and>
         (\<forall>k. k \<noteq> key \<longrightarrow>
            map_of (eventHandlers (off this event handler w)) k = map_of (eventHandlers w) k) \<and>
         handlers (off this event handler w) = handlers w \<and>
         pendingRequests (off this event handler w) = pendingRequests w \<and>
         settled (off this event handler w) = settled w \<and>
         calls (off this event handler w) = calls w \<and>
         outbox (off this event handler w) = outbox w"
proof -
  have absent: "map_of (eventHandlers w) key = None \<Longrightarrow> key \<notin> fst ` set (eventHandlers w)"
    by (simp add: map_of_eq_None_iff)
  show ?thesis
    using key absent
    by (cases handler)
       (auto simp add: off_def Let_def Set_delete_def delete_conv' update_conv'
          delete_update_same split: option.splits)
qed

theorem C7_off_removes_listeners_witness:
  "getHandlerKey ex_a (Some ''tick'') None = Some ''a:tick'' \<and>
   eventHandlers (listen ex_a ''tick'' (Listener 2 (\<lambda>d. False))
                   (listen ex_a ''tick'' (Listener 1 (\<lambda>d. True)) ex_started)) =
     [(''a:tick'', [Listener 1 (\<lambda>d. True), Listener 2 (\<lambda>d. False)])] \<and>
   map_of (eventHandlers (off ex_a ''tick'' (Some (Listener 1 (\<lambda>d. True)))
            (listen ex_a ''tick'' (Listener 2 (\<lambda>d. False))
               (listen ex_a ''tick'' (Listener 1 (\<lambda>d. True)) ex_started)))) ''a:tick'' =
     Some [Listener 2 (\<lambda>d. False)] \<and>
   map_of (eventHandlers (off ex_a ''tick'' None
            (listen ex_a ''tick'' (Listener 2 (\<lambda>d. False))
               (listen ex_a ''tick'' (Listener 1 (\<lambda>d. True)) ex_started)))) ''a:tick'' = None \<and>
   eventHandlers (off ex_a ''tick'' None ex_started) = eventHandlers ex_started"
proof -
  have key: "getHandlerKey ex_a (Some ''tick'') None = Some ''a:tick''"
    by (simp add: getHandlerKey_def ex_bridges)
  have two: "eventHandlers (listen ex_a ''tick'' (Listener 2 (\<lambda>d. False))
                   (listen ex_a ''tick'' (Listener 1 (\<lambda>d. True)) ex_started)) =
     [(''a:tick'', [Listener 1 (\<lambda>d. True), Listener 2 (\<lambda>d. False)])]"
    by (simp add: listen_def key Set_add_def ex_started_eval Let_def)
  have none: "map_of (eventHandlers ex_started) ''a:tick'' = None"
    by (simp add: ex_started_eval)
  from C7_off_removes_listeners [OF key, of
      "listen ex_a ''tick'' (Listener 2 (\<lambda>d. False))
         (listen ex_a ''tick'' (Listener 1 (\<lambda>d. True)) ex_started)"
      "Listener 1 (\<lambda>d. True)" None]
    C7_off_removes_listeners [OF key, of ex_started "Listener 1 (\<lambda>d. True)" None]
    key two none
  show ?thesis by simp
qed

subsection \<open>Replies that match no pending request\<close>

text \<open>
  Claim C8. Take an inbound message that passes the origin and validity checks and whose
  kind is Response or Error. If its identifier is in the pending-request map but the
  channel recorded there differs from the channel of the message, the dispatcher does
  nothing but log (the reception and the mismatch, when debugging): the pending
  requests, the active timers and the calls of resolve/reject are as before. If the
  identifier is not in the map, nothing happens beyond the log line of the reception.
\<close>

theorem C8_mismatched_reply_is_discarded:
  assumes "targetOrigin this = ''*'' \<or> ev_origin event = targetOrigin this"
    and "ev_data event = Object message"
    and "isValidMessage (Object message)"
    and "msg_type message = JStr MT_RESPONSE \<or> msg_type message = JStr MT_ERROR"
  shows "(\<forall>pending. Map_get_js (pendingRequests w) (msg_id message) = Some pending \<and>
            pr_channel pending \<noteq> msg_channel message \<longrightarrow>
            handleMessage this now event w =
              log this ''Response channel mismatch'' (log this ''Message received'' w) \<and>
            pendingRequests (handleMessage this now event w) = pendingRequests w \<and>
            timers (handleMessage this now event w) = timers w \<and>
            settled (handleMessage this now event w) = settled w) \<and>
         (Map_get_js (pendingRequests w) (msg_id message) = None \<longrightarrow>
            handleMessage this now event w = log this ''Message received'' w)"
  unfolding handleMessage_response [OF assms]
  by (simp add: handleResponse_def)

theorem C8_mismatched_reply_is_discarded_witness:
  "(targetOrigin ex_root = ''*'' \<or>
      ev_origin (ex_event (ex_message (JStr ''r1'') MT_RESPONSE None (Some ''b''))) =
        targetOrigin ex_root) \<and>
   isValidMessage (Object (ex_message (JStr ''r1'') MT_RESPONSE None (Some ''b''))) \<and>
   Map_get_js (pendingRequests ex_requested) (JStr ''r1'') =
     Some \<lparr>pr_promise = 0, pr_timer = 0, pr_channel = Some ''a''\<rparr> \<and>
   Map_get_js (pendingRequests ex_requested) (JStr ''r7'') = None \<and>
   pendingRequests (handleMessage ex_root 12
      (ex_event (ex_message (JStr ''r1'') MT_RESPONSE None (Some ''b''))) ex_requested) =
     pendingRequests ex_requested \<and>
   settled (handleMessage ex_root 12
      (ex_event (ex_message (JStr ''r1'') MT_RESPONSE None (Some ''b''))) ex_requested) = [] \<and>
   settled (handleMessage ex_root 12
      (ex_event (ex_message (JStr ''r7'') MT_ERROR None (Some ''a''))) ex_requested) = []"
  using C8_mismatched_reply_is_discarded [of ex_root
      "ex_event (ex_message (JStr ''r1'') MT_RESPONSE None (Some ''b''))"
      "ex_message (JStr ''r1'') MT_RESPONSE None (Some ''b'')" ex_requested 12]
    C8_mismatched_reply_is_discarded [of ex_root
      "ex_event (ex_message (JStr ''r7'') MT_ERROR None (Some ''a''))"
      "ex_message (JStr ''r7'') MT_ERROR None (Some ''a'')" ex_requested 12]
  by (simp add: ex_bridges ex_requested_eval ex_event_def ex_message_def isValidMessage_Object)

subsection \<open>Defaults of the constructor\<close>

text \<open>
  Claim C9. The constructor takes a default whenever the option is falsy. With
  \<open>targetOrigin\<close> the empty string the instance is the one built with the wildcard: its
  dispatcher treats two events that differ only in their origin alike, and it hands
  every message to the target window with the target origin \<open>*\<close>, so that what the
  window accepts is queued for \<open>*\<close>. With \<open>timeout\<close> zero the instance is the one built
  with 30000, and a request arms its timer with 30000. With \<open>debug\<close> false the instance
  is the one built without the option.
\<close>

theorem C9_defaults_by_truthiness:
  "new_bridge tgt (options\<lparr>opt_targetOrigin := Some ''''\<rparr>) chName hasRoot =
     new_bridge tgt (options\<lparr>opt_targetOrigin := Some ''*''\<rparr>) chName hasRoot \<and>
   new_bridge tgt (options\<lparr>opt_targetOrigin := Some ''''\<rparr>) chName hasRoot =
     new_bridge tgt (options\<lparr>opt_targetOrigin := None\<rparr>) chName hasRoot \<and>
   handleMessage (new_bridge tgt (options\<lparr>opt_targetOrigin := Some ''''\<rparr>) chName hasRoot) now
       \<lparr>ev_origin = origin1, ev_data = d\<rparr> w =
     handleMessage (new_bridge tgt (options\<lparr>opt_targetOrigin := Some ''''\<rparr>) chName hasRoot) now
       \<lparr>ev_origin = origin2, ev_data = d\<rparr> w \<and>
   postMessage (new_bridge tgt (options\<lparr>opt_targetOrigin := Some ''''\<rparr>) chName hasRoot)
       message w =
     (case Window_postMessage tgt (msg_data message) ''*'' of
        Inl e \<Rightarrow> Inl e
      | Inr data \<Rightarrow> Inr (w\<lparr>outbox := outbox w @ [(message\<lparr>msg_data := data\<rparr>, ''*'')]\<rparr>)) \<and>
   new_bridge tgt (options\<lparr>opt_timeout := Some (Num 0)\<rparr>) chName hasRoot =
     new_bridge tgt (options\<lparr>opt_timeout := Some (Num 30000)\<rparr>) chName hasRoot \<and>
   new_bridge tgt (options\<lparr>opt_timeout := Some (Num 0)\<rparr>) chName hasRoot =
     new_bridge tgt (options\<lparr>opt_timeout := None\<rparr>) chName hasRoot \<and>
   map_of (timers (snd (request
       (new_bridge tgt (options\<lparr>opt_timeout := Some (Num 0)\<rparr>) chName hasRoot)
       ident now method data w))) (nextTimer w) =
     Some \<lparr>cb_id = ident, cb_method = method, cb_promise = nextPromise w,
           cb_delay = Num 30000\<rparr> \<and>
   new_bridge tgt (options\<lparr>opt_debug := Some False\<rparr>) chName hasRoot =
     new_bridge tgt (options\<lparr>opt_debug := None\<rparr>) chName hasRoot \<and>
   constructor tgt (options\<lparr>opt_debug := Some False\<rparr>) chName hasRoot w =
     constructor tgt (options\<lparr>opt_debug := None\<rparr>) chName hasRoot w"
  by (simp add: new_bridge_def constructor_def Let_def handleMessage_def postMessage_def
      request_def reject_def update_conv' split: sum.splits)

subsection \<open>The loops of destroy\<close>

lemma deleteKeys_filter:
  "deleteKeys p ks m = filter (\<lambda>e. \<not> (prefix p (fst e) \<and> fst e \<in> set ks)) m"
proof (induction ks arbitrary: m)
  case Nil
  then show ?case by simp
next
  case (Cons k ks)
  show ?case
    by (auto simp add: Cons.IH AList.delete_eq intro!: filter_cong)
qed

lemma deleteKeys_own_keys:
  "deleteKeys p (map fst m) m = filter (\<lambda>e. \<not> prefix p (fst e)) m"
  by (auto simp add: deleteKeys_filter intro!: filter_cong)

lemma rejectAll_shape: "\<exists>ts ss. rejectAll rs w = w\<lparr>timers := ts, settled := ss\<rparr>"
proof (induction rs arbitrary: w)
  case Nil
  have "rejectAll [] w = w\<lparr>timers := timers w, settled := settled w\<rparr>" by simp
  then show ?case by blast
next
  case (Cons r rs)
  obtain i q where r: "r = (i, q)" by (cases r)
  let ?w' = "reject (pr_promise q) ''Bridge destroyed'' (clearTimeout (pr_timer q) w)"
  from Cons.IH [of ?w'] obtain ts ss where "rejectAll rs ?w' = ?w'\<lparr>timers := ts, settled := ss\<rparr>"
    by blast
  then have "rejectAll (r # rs) w = w\<lparr>timers := ts, settled := ss\<rparr>"
    by (simp add: r reject_def clearTimeout_def)
  then show ?case by blast
qed

lemma rejectAll_frame [simp]:
  "handlers (rejectAll rs w) = handlers w"
  "eventHandlers (rejectAll rs w) = eventHandlers w"
  "pendingRequests (rejectAll rs w) = pendingRequests w"
  "messageHandler (rejectAll rs w) = messageHandler w"
  "nextTimer (rejectAll rs w) = nextTimer w"
  "nextPromise (rejectAll rs w) = nextPromise w"
  "outbox (rejectAll rs w) = outbox w"
  "calls (rejectAll rs w) = calls w"
  "console (rejectAll rs w) = console w"
  using rejectAll_shape [of rs w] by auto

lemma rejectChannel_shape:
  "\<exists>ts ss ps. rejectChannel c rs w = w\<lparr>timers := ts, settled := ss, pendingRequests := ps\<rparr>"
proof (induction rs arbitrary: w)
  case Nil
  have "rejectChannel c [] w =
      w\<lparr>timers := timers w, settled := settled w, pendingRequests := pendingRequests w\<rparr>"
    by simp
  then show ?case by blast
next
  case (Cons r rs)
  obtain i q where r: "r = (i, q)" by (cases r)
  show ?case
  proof (cases "pr_channel q = c")
    case True
    let ?w1 = "reject (pr_promise q) ''Channel destroyed'' (clearTimeout (pr_timer q) w)"
    let ?w' = "?w1\<lparr>pendingRequests := AList.delete i (pendingRequests ?w1)\<rparr>"
    from Cons.IH [of ?w'] obtain ts ss ps
      where "rejectChannel c rs ?w' = ?w'\<lparr>timers := ts, settled := ss, pendingRequests := ps\<rparr>"
      by blast
    then have "rejectChannel c (r # rs) w = w\<lparr>timers := ts, settled := ss, pendingRequests := ps\<rparr>"
      using True by (simp add: r reject_def clearTimeout_def Let_def)
    then show ?thesis by blast
  next
    case False
    with Cons.IH [of w] show ?thesis by (simp add: r)
  qed
qed

lemma rejectChannel_frame [simp]:
  "handlers (rejectChannel c rs w) = handlers w"
  "eventHandlers (rejectChannel c rs w) = eventHandlers w"
  "messageHandler (rejectChannel c rs w) = messageHandler w"
  "nextTimer (rejectChannel c rs w) = nextTimer w"
  "nextPromise (rejectChannel c rs w) = nextPromise w"
  "outbox (rejectChannel c rs w) = outbox w"
  "calls (rejectChannel c rs w) = calls w"
  "console (rejectChannel c rs w) = console w"
  using rejectChannel_shape [of c rs w] by auto

lemma rejectAll_settled:
  "settled (rejectAll rs w) =
     settled w @ map (\<lambda>e. (pr_promise (snd e), Rejected ''Bridge destroyed'')) rs"
  by (induction rs arbitrary: w) (auto simp add: reject_def clearTimeout_def)

lemma rejectAll_timers:
  "timers (rejectAll rs w) = filter (\<lambda>e. fst e \<notin> pr_timer ` snd ` set rs) (timers w)"
proof (induction rs arbitrary: w)
  case Nil
  then show ?case by simp
next
  case (Cons r rs)
  obtain i q where r: "r = (i, q)" by (cases r)
  show ?case
    by (auto simp add: r Cons.IH reject_def clearTimeout_def AList.delete_eq intro!: filter_cong)
qed

lemma rejectChannel_settled:
  "settled (rejectChannel c rs w) =
     settled w @ map (\<lambda>e. (pr_promise (snd e), Rejected ''Channel destroyed''))
                   (filter (\<lambda>e. pr_channel (snd e) = c) rs)"
  by (induction rs arbitrary: w) (auto simp add: reject_def clearTimeout_def)

lemma rejectChannel_timers:
  "timers (rejectChannel c rs w) =
     filter (\<lambda>e. fst e \<notin> pr_timer ` snd ` {x \<in> set rs. pr_channel (snd x) = c}) (timers w)"
proof (induction rs arbitrary: w)
  case Nil
  then show ?case by simp
next
  case (Cons r rs)
  obtain i q where r: "r = (i, q)" by (cases r)
  show ?case
    by (auto simp add: r Cons.IH reject_def clearTimeout_def AList.delete_eq image_iff
        intro!: filter_cong) force+
qed

lemma rejectChannel_pending:
  "pendingRequests (rejectChannel c rs w) =
     filter (\<lambda>e. fst e \<notin> fst ` {x \<in> set rs. pr_channel (snd x) = c}) (pendingRequests w)"
proof (induction rs arbitrary: w)
  case Nil
  then show ?case by simp
next
  case (Cons r rs)
  obtain i q where r: "r = (i, q)" by (cases r)
  show ?case
    by (auto simp add: r Cons.IH reject_def clearTimeout_def AList.delete_eq image_iff
        intro!: filter_cong)
qed

lemma rejectChannel_own_pending:
  assumes "distinct (map fst ps)"
  shows "filter (\<lambda>e. fst e \<notin> fst ` {x \<in> set ps. pr_channel (snd x) = c}) ps =
         filter (\<lambda>e. pr_channel (snd e) \<noteq> c) ps"
proof (rule filter_cong [OF refl])
  fix e assume e: "e \<in> set ps"
  have "\<And>x. x \<in> set ps \<Longrightarrow> fst x = fst e \<Longrightarrow> x = e"
    using assms e by (metis eq_key_imp_eq_value prod.collapse)
  then show "(fst e \<notin> fst ` {x \<in> set ps. pr_channel (snd x) = c}) = (pr_channel (snd e) \<noteq> c)"
    using e by auto
qed

subsection \<open>Teardown\<close>

text \<open>
  Claim C6, as amended. On a root, \<open>destroy\<close> rejects every pending request, in the order
  of the map, with \<open>Bridge destroyed\<close>, cancels their timers, empties the three maps and
  drops the subscription. On a channel instance it rejects with \<open>Channel destroyed\<close>
  exactly the pending requests recorded under the channel's name, cancels their timers
  and removes them, and it removes exactly the handler and listener keys that begin with
  the channel's prefix: every other pending request and every other key stays as it is.
  (A key of the root or of another channel that itself begins with that prefix goes
  with them.) The pending requests are a map, so their keys are distinct.
\<close>

theorem C6_destroy_scopes:
  assumes "distinct (map fst (pendingRequests w))"
  shows "(isRootBridge this \<longrightarrow>
            settled (destroy this w) =
              settled w @
              map (\<lambda>e. (pr_promise (snd e), Rejected ''Bridge destroyed'')) (pendingRequests w) \<and>
            timers (destroy this w) =
              filter (\<lambda>e. fst e \<notin> set (map (\<lambda>x. pr_timer (snd x)) (pendingRequests w)))
                (timers w) \<and>
            pendingRequests (destroy this w) = [] \<and>
            handlers (destroy this w) = [] \<and>
            eventHandlers (destroy this w) = [] \<and>
            \<not> messageHandler (destroy this w)) \<and>
         (\<not> isRootBridge this \<longrightarrow>
            settled (destroy this w) =
              settled w @
              map (\<lambda>e. (pr_promise (snd e), Rejected ''Channel destroyed''))
                (filter (\<lambda>e. pr_channel (snd e) = channelName this) (pendingRequests w)) \<and>
            timers (destroy this w) =
              filter (\<lambda>e. fst e \<notin> set (map (\<lambda>x. pr_timer (snd x))
                          (filter (\<lambda>x. pr_channel (snd x) = channelName this)
                             (pendingRequests w))))
                (timers w) \<and>
            pendingRequests (destroy this w) =
              filter (\<lambda>e. pr_channel (snd e) \<noteq> channelName this) (pendingRequests w) \<and>
            handlers (destroy this w) =
              filter (\<lambda>e. \<not> prefix (tmpl (channelName this) @ '':'') (fst e)) (handlers w) \<and>
            eventHandlers (destroy this w) =
              filter (\<lambda>e. \<not> prefix (tmpl (channelName this) @ '':'') (fst e)) (eventHandlers w) \<and>
            messageHandler (destroy this w) = messageHandler w)"
proof (cases "isRootBridge this")
  case True
  then show ?thesis
    by (simp add: destroy_def Let_def rejectAll_settled rejectAll_timers image_image)
next
  case False
  then show ?thesis
    using rejectChannel_own_pending [OF assms, of "channelName this"]
    by (simp add: destroy_def Let_def rejectChannel_settled rejectChannel_timers
        rejectChannel_pending deleteKeys_own_keys image_image)
qed

theorem C6_destroy_scopes_witness:
  "distinct (map fst (pendingRequests ex_busy)) \<and>
   isRootBridge ex_root \<and> \<not> isRootBridge ex_b \<and>
   map fst (pendingRequests ex_busy) = [''r1'', ''r2''] \<and>
   map fst (handlers ex_busy) = [''ping'', ''a:ping'', ''b:pong''] \<and>
   settled (destroy ex_root ex_busy) =
     [(0, Rejected ''Bridge destroyed''), (1, Rejected ''Bridge destroyed'')] \<and>
   timers (destroy ex_root ex_busy) = [] \<and>
   handlers (destroy ex_root ex_busy) = [] \<and>
   settled (destroy ex_b ex_busy) = [(1, Rejected ''Channel destroyed'')] \<and>
   map fst (timers (destroy ex_b ex_busy)) = [0] \<and>
   pendingRequests (destroy ex_b ex_busy) =
     [(''r1'', \<lparr>pr_promise = 0, pr_timer = 0, pr_channel = Some ''a''\<rparr>)] \<and>
   map fst (handlers (destroy ex_b ex_busy)) = [''ping'', ''a:ping'']"
  using C6_destroy_scopes [of ex_busy ex_root] C6_destroy_scopes [of ex_busy ex_b]
  by (simp add: ex_busy_fields ex_bridges)


text \<open>
  The claim as stated promises that a channel's \<open>destroy\<close> leaves the registrations of
  the root unchanged. A handler the root registered for the method \<open>a:x\<close> is removed by
  the \<open>destroy\<close> of the channel \<open>a\<close>.
\<close>

theorem C6_destroy_scopes_counterexample:
  "isRootBridge ex_root \<and> \<not> isRootBridge ex_a \<and> channelName ex_a = Some ''a'' \<and>
   map fst (handlers (on ex_root ''a:x'' ex_double ex_started)) = [''a:x''] \<and>
   handlers (destroy ex_a (on ex_root ''a:x'' ex_double ex_started)) = []"
  by (simp add: ex_bridges ex_started_eval on_def destroy_def getHandlerKey_def log_def Let_def)


subsection \<open>The channel with the empty name\<close>

text \<open>
  Claim C10, as amended. On a channel instance whose name is the empty string the
  qualified key of a name \<open>m\<close> is \<open>m\<close> itself, as on a root without a channel name: \<open>on\<close>,
  \<open>listen\<close> and \<open>off\<close> on that channel change the maps exactly as the same call on the
  root does, and the message a \<open>request\<close> on it posts carries the empty channel name,
  for which every dispatcher looks up the bare key. Its \<open>destroy\<close> removes exactly the
  handler and listener keys that begin with a colon (so none of the keys of names that
  do not begin with one) and rejects, with \<open>Channel destroyed\<close>, the pending requests
  recorded under the empty channel name.
\<close>

theorem C10_empty_channel_name:
  assumes "channelName chE = Some ''''" and "channelName root = None"
    and "\<not> isRootBridge chE"
    and "distinct (map fst (pendingRequests w))"
  shows "getHandlerKey chE (Some m) None = Some m \<and>
         getHandlerKey root (Some m) None = Some m \<and>
         handlers (on chE m h w) = handlers (on root m h w) \<and>
         eventHandlers (listen chE m l w) = eventHandlers (listen root m l w) \<and>
         eventHandlers (off chE m lo w) = eventHandlers (off root m lo w) \<and>
         outbox (snd (request chE ident now m p w)) =
           outbox w @
           (case Window_postMessage (target chE) p (targetOrigin chE) of
              Inl e \<Rightarrow> []
            | Inr d \<Rightarrow>
                [(\<lparr>msg_protocol = JStr PROTOCOL_ID, msg_id = JStr ident,
                   msg_type = JStr MT_REQUEST, msg_method = Some m,
                   msg_channel = Some '''', msg_data = d, msg_error = None,
                   msg_timestamp = JNum (Num now)\<rparr>, targetOrigin chE)]) \<and>
         getHandlerKey peer (Some m) (Some '''') = Some m \<and>
         handlers (destroy chE w) = filter (\<lambda>e. \<not> prefix '':'' (fst e)) (handlers w) \<and>
         eventHandlers (destroy chE w) =
           filter (\<lambda>e. \<not> prefix '':'' (fst e)) (eventHandlers w) \<and>
         pendingRequests (destroy chE w) =
           filter (\<lambda>e. pr_channel (snd e) \<noteq> Some '''') (pendingRequests w) \<and>
         settled (destroy chE w) =
           settled w @
           map (\<lambda>e. (pr_promise (snd e), Rejected ''Channel destroyed''))
             (filter (\<lambda>e. pr_channel (snd e) = Some '''') (pendingRequests w))"
proof -
  have keys: "getHandlerKey chE (Some m) None = Some m" "getHandlerKey root (Some m) None = Some m"
    "getHandlerKey peer (Some m) (Some '''') = Some m"
    using assms(1,2) by (simp_all add: getHandlerKey_def)
  have regs: "handlers (on chE m h w) = handlers (on root m h w)"
    "eventHandlers (listen chE m l w) = eventHandlers (listen root m l w)"
    "eventHandlers (off chE m lo w) = eventHandlers (off root m lo w)"
    using keys by (simp_all add: on_def listen_def off_def Let_def split: option.splits)
  have req: "outbox (snd (request chE ident now m p w)) =
           outbox w @
           (case Window_postMessage (target chE) p (targetOrigin chE) of
              Inl e \<Rightarrow> []
            | Inr d \<Rightarrow>
                [(\<lparr>msg_protocol = JStr PROTOCOL_ID, msg_id = JStr ident,
                   msg_type = JStr MT_REQUEST, msg_method = Some m,
                   msg_channel = Some '''', msg_data = d, msg_error = None,
                   msg_timestamp = JNum (Num now)\<rparr>, targetOrigin chE)])"
    by (simp add: request_outbox assms(1) cong: sum.case_cong)
  have des: "handlers (destroy chE w) = filter (\<lambda>e. \<not> prefix '':'' (fst e)) (handlers w)"
    "eventHandlers (destroy chE w) = filter (\<lambda>e. \<not> prefix '':'' (fst e)) (eventHandlers w)"
    "pendingRequests (destroy chE w) =
           filter (\<lambda>e. pr_channel (snd e) \<noteq> Some '''') (pendingRequests w)"
    "settled (destroy chE w) =
           settled w @
           map (\<lambda>e. (pr_promise (snd e), Rejected ''Channel destroyed''))
             (filter (\<lambda>e. pr_channel (snd e) = Some '''') (pendingRequests w))"
    using assms(1,3) rejectChannel_own_pending [OF assms(4), of "Some ''''"]
    by (simp_all add: destroy_def Let_def rejectChannel_settled rejectChannel_pending
        deleteKeys_own_keys)
  from keys regs req des show ?thesis by simp
qed

theorem C10_empty_channel_name_witness:
  "channelName ex_e = Some '''' \<and> channelName ex_root = None \<and> \<not> isRootBridge ex_e \<and>
   distinct (map fst (pendingRequests ex_busy)) \<and>
   getHandlerKey ex_e (Some ''ping'') None = Some ''ping'' \<and>
   handlers (on ex_e ''ping'' (\<lambda>d. Promise NeverSettles) ex_busy) =
     [(''ping'', \<lambda>d. Promise NeverSettles), (''a:ping'', ex_double), (''b:pong'', ex_double)] \<and>
   handlers (destroy ex_e ex_busy) = handlers ex_busy \<and>
   pendingRequests (destroy ex_e ex_busy) = pendingRequests ex_busy \<and>
   settled (destroy ex_e ex_busy) = []"
  using C10_empty_channel_name [of ex_e ex_root ex_busy "''ping''" "\<lambda>d. Promise NeverSettles"]
  by (simp add: ex_busy_fields ex_bridges on_def getHandlerKey_def)

text \<open>
  The claim as stated says that the \<open>destroy\<close> of that channel removes no handler key.
  A handler registered on it for the method \<open>:x\<close> has the key \<open>:x\<close>, which begins with
  the prefix, and \<open>destroy\<close> removes it.
\<close>

theorem C10_empty_channel_name_counterexample:
  "channelName ex_e = Some '''' \<and> \<not> isRootBridge ex_e \<and>
   map fst (handlers (on ex_e '':x'' ex_double ex_started)) = ['':x''] \<and>
   handlers (destroy ex_e (on ex_e '':x'' ex_double ex_started)) = []"
  by (simp add: ex_bridges ex_started_eval on_def destroy_def getHandlerKey_def log_def Let_def)

subsection \<open>Which inbound messages are routed\<close>

text \<open>
  Claim C4, as amended. An inbound message is handed to the handler of its kind if and
  only if the routing condition holds: its origin equals the configured origin when one
  other than the wildcard is configured, the marker equals the protocol constant, the
  identifier is a string (the empty string included), the kind is one of the four kinds
  and the timestamp is a number. Otherwise nothing is invoked, resolved, rejected or
  sent, and the state is unchanged; the one trace is the debug log line of the
  reception, for a message that passes the checks and has an unknown kind.
\<close>

theorem C4_routed_iff_condition:
  "(routing_condition this event \<longrightarrow>
      (\<exists>m. ev_data event = Object m \<and>
         handleMessage this now event w =
           (if msg_type m = JStr MT_REQUEST then handleRequest this now m
            else if msg_type m = JStr MT_EVENT then handleEvent this m
            else handleResponse this m) (log this ''Message received'' w))) \<and>
   (\<not> routing_condition this event \<longrightarrow>
      handleMessage this now event w =
        (if (targetOrigin this = ''*'' \<or> ev_origin event = targetOrigin this) \<and>
            isValidMessage (ev_data event)
         then log this ''Message received'' w else w))"
proof (cases "ev_data event")
  case (Primitive v)
  then show ?thesis
    by (simp add: routing_condition_def handleMessage_def isValidMessage_Primitive)
next
  case (Object m)
  then show ?thesis
    by (auto simp add: routing_condition_def handleMessage_def isValidMessage_Object Let_def
        MT_REQUEST_def MT_RESPONSE_def MT_EVENT_def MT_ERROR_def)
qed

theorem C4_routed_iff_condition_witness:
  "routing_condition ex_root (ex_event (ex_message (JStr ''r9'') MT_REQUEST (Some ''ping'') None)) \<and>
   calls (handleMessage ex_root 12
            (ex_event (ex_message (JStr ''r9'') MT_REQUEST (Some ''ping'') None)) ex_busy) =
     [HandlerCall ''ping'' (Some 2)] \<and>
   \<not> routing_condition ex_root
       \<lparr>ev_origin = ''https://evil.test'',
        ev_data = Object (ex_message (JStr ''r9'') MT_REQUEST (Some ''ping'') None)\<rparr> \<and>
   handleMessage ex_root 12
       \<lparr>ev_origin = ''https://evil.test'',
        ev_data = Object (ex_message (JStr ''r9'') MT_REQUEST (Some ''ping'') None)\<rparr> ex_busy =
     ex_busy \<and>
   \<not> routing_condition ex_root (ex_event (ex_message JNull MT_REQUEST (Some ''ping'') None)) \<and>
   handleMessage ex_root 12 (ex_event (ex_message JNull MT_REQUEST (Some ''ping'') None)) ex_busy =
     ex_busy"
proof -
  have r: "routing_condition ex_root
             (ex_event (ex_message (JStr ''r9'') MT_REQUEST (Some ''ping'') None))"
    by (simp add: routing_condition_def ex_event_def ex_message_def ex_bridges)
  have n1: "\<not> routing_condition ex_root
       \<lparr>ev_origin = ''https://evil.test'',
        ev_data = Object (ex_message (JStr ''r9'') MT_REQUEST (Some ''ping'') None)\<rparr>"
    by (simp add: routing_condition_def ex_bridges)
  have n2: "\<not> routing_condition ex_root
              (ex_event (ex_message JNull MT_REQUEST (Some ''ping'') None))"
    by (simp add: routing_condition_def ex_event_def ex_message_def ex_bridges)
  have c: "calls (handleRequest ex_root 12 (ex_message (JStr ''r9'') MT_REQUEST (Some ''ping'') None)
                 (log ex_root ''Message received'' ex_busy)) = [HandlerCall ''ping'' (Some 2)]"
    by (simp add: handleRequest_calls ex_busy_fields ex_message_def getHandlerKey_def ex_bridges)
  show ?thesis
    using C4_routed_iff_condition
        [of ex_root "ex_event (ex_message (JStr ''r9'') MT_REQUEST (Some ''ping'') None)"
          12 ex_busy]
      C4_routed_iff_condition
        [of ex_root "\<lparr>ev_origin = ''https://evil.test'',
           ev_data = Object (ex_message (JStr ''r9'') MT_REQUEST (Some ''ping'') None)\<rparr>"
          12 ex_busy]
      C4_routed_iff_condition
        [of ex_root "ex_event (ex_message JNull MT_REQUEST (Some ''ping'') None)" 12 ex_busy]
      r n1 n2 c
    by (simp add: ex_event_def ex_bridges isValidMessage_Object ex_message_def MT_REQUEST_def)
qed

text \<open>
  The claim as stated requires a non-empty identifier. A request whose identifier is
  the empty string is routed: the handler runs and its reply is posted.
\<close>

theorem C4_empty_identifier_counterexample:
  "calls (handleMessage ex_root 12
            (ex_event (ex_message (JStr '''') MT_REQUEST (Some ''ping'') None))
            (on ex_root ''ping'' ex_double ex_started)) = [HandlerCall ''ping'' (Some 2)] \<and>
   outbox (handleMessage ex_root 12
            (ex_event (ex_message (JStr '''') MT_REQUEST (Some ''ping'') None))
            (on ex_root ''ping'' ex_double ex_started)) =
     [(\<lparr>msg_protocol = JStr PROTOCOL_ID, msg_id = JStr '''', msg_type = JStr MT_RESPONSE,
        msg_method = None, msg_channel = None, msg_data = Some 4, msg_error = None,
        msg_timestamp = JNum (Num 12)\<rparr>, ''https://a.test'')]"
  by (simp add: ex_bridges ex_started_eval isValidMessage_Object ex_defs ex_window_post)

subsection \<open>Replies to requests\<close>

lemma Window_postMessage_None:
  "Window_postMessage win None origin =
     (case originError win origin of Some e \<Rightarrow> Inl e | None \<Rightarrow> Inr None)"
  by (simp add: Window_postMessage_def split: option.splits)

lemma Window_postMessage_Inr:
  "Window_postMessage win data origin = Inr d \<Longrightarrow> originError win origin = None"
  by (simp add: Window_postMessage_def split: option.splits)

lemma sendError_outbox:
  "orUnhandled (sendError this now ident text ch w) w =
     (case originError (target this) (targetOrigin this) of
        Some e \<Rightarrow> unhandledRejection e w
      | None \<Rightarrow>
          log this ''Error sent''
            (w\<lparr>outbox := outbox w @
                 [(\<lparr>msg_protocol = JStr PROTOCOL_ID, msg_id = ident, msg_type = JStr MT_ERROR,
                    msg_method = None, msg_channel = ch, msg_data = None,
                    msg_error = Some text, msg_timestamp = JNum (Num now)\<rparr>,
                   targetOrigin this)]\<rparr>))"
  by (simp add: orUnhandled_def sendError_def postMessage_def Window_postMessage_None Let_def
      split: option.splits)

lemma afterAwait_outbox:
  "afterAwait this now ident ch result w =
     (case Window_postMessage (target this) result (targetOrigin this) of
        Inr d \<Rightarrow>
          log this ''Response sent''
            (w\<lparr>outbox := outbox w @
                 [(\<lparr>msg_protocol = JStr PROTOCOL_ID, msg_id = ident,
                    msg_type = JStr MT_RESPONSE, msg_method = None, msg_channel = ch,
                    msg_data = d, msg_error = None, msg_timestamp = JNum (Num now)\<rparr>,
                   targetOrigin this)]\<rparr>)
      | Inl e \<Rightarrow> orUnhandled (sendError this now ident e ch w) w)"
  by (simp add: afterAwait_def sendResponse_def postMessage_def catchBlock_def Let_def
      split: sum.splits)

lemma catchBlock_outbox:
  "catchBlock this now ident ch error w =
     (case error of
        ErrorObj text \<Rightarrow> orUnhandled (sendError this now ident text ch w) w
      | NonError text \<Rightarrow> orUnhandled (sendError this now ident text ch w) w
      | Unstringable e \<Rightarrow> unhandledRejection e w)"
  by (simp add: catchBlock_def split: thrown.splits)

text \<open>
  Claim C2, as amended. \<open>reply\<close> is the envelope a reply carries: the identifier and
  the channel of the request, and the clock at the time of the reply. For an inbound
  Request that passes the origin and validity checks:
  \<^item> with no handler under the qualified key, one Error naming the method is posted;
  \<^item> when the handler returns a value, one Response carrying its clone is posted, or,
    when the value cannot be cloned, one Error carrying the message of that failure;
  \<^item> when the handler throws, one Error carrying the message text is posted;
  \<^item> when the text of the thrown value cannot be taken, or the target window refuses
    the target origin, nothing is posted and the exception leaves the dispatcher as a
    rejection;
  \<^item> when the handler returns a promise, nothing is posted in this step and the call is
    suspended; when the promise is fulfilled or rejected, the suspended call posts as
    above; a promise that never settles leaves it suspended for ever.
  Handling a request touches neither the pending requests nor the handlers.
\<close>

theorem C2_one_reply_per_request:
  assumes "targetOrigin this = ''*'' \<or> ev_origin event = targetOrigin this"
    and "ev_data event = Object message"
    and "isValidMessage (Object message)"
    and "msg_type message = JStr MT_REQUEST"
    and "key = getHandlerKey this (msg_method message) (msg_channel message)"
    and "reply = (\<lambda>time kind data error.
           (\<lparr>msg_protocol = JStr PROTOCOL_ID, msg_id = msg_id message, msg_type = JStr kind,
             msg_method = None, msg_channel = msg_channel message, msg_data = data,
             msg_error = error, msg_timestamp = JNum (Num time)\<rparr>, targetOrigin this))"
    and "post = (\<lambda>data. Window_postMessage (target this) data (targetOrigin this))"
    and "refused = originError (target this) (targetOrigin this)"
    and "answered = (\<lambda>before after envelope.
           outbox after = outbox before @ [envelope] \<and>
           unhandledRejections after = unhandledRejections before)"
    and "escaped = (\<lambda>before after e.
           outbox after = outbox before \<and>
           unhandledRejections after = unhandledRejections before @ [e])"
    and "w' = handleMessage this now event w"
    and "map_of (awaiting v) k =
           Some \<lparr>su_this = this, su_id = msg_id message, su_channel = msg_channel message,
                 su_outcome = p\<rparr>"
    and "v' = handlerSettles k later v"
  shows "(Map_get (handlers w) key = None \<and> refused = None \<longrightarrow>
            answered w w'
              (reply now MT_ERROR None
                 (Some (''No handler for method: '' @ tmpl (msg_method message))))) \<and>
         (\<forall>e. Map_get (handlers w) key = None \<and> refused = Some e \<longrightarrow> escaped w w' e) \<and>
         (\<forall>handler result d.
            Map_get (handlers w) key = Some handler \<and>
            handler (msg_data message) = Returns result \<and> post result = Inr d \<longrightarrow>
            answered w w' (reply now MT_RESPONSE d None)) \<and>
         (\<forall>handler result e.
            Map_get (handlers w) key = Some handler \<and>
            handler (msg_data message) = Returns result \<and> post result = Inl e \<and>
            refused = None \<longrightarrow>
            answered w w' (reply now MT_ERROR None (Some e))) \<and>
         (\<forall>handler text.
            Map_get (handlers w) key = Some handler \<and>
            (handler (msg_data message) = Throws (ErrorObj text) \<or>
             handler (msg_data message) = Throws (NonError text)) \<and>
            refused = None \<longrightarrow>
            answered w w' (reply now MT_ERROR None (Some text))) \<and>
         (\<forall>handler e.
            Map_get (handlers w) key = Some handler \<and>
            handler (msg_data message) = Throws (Unstringable e) \<longrightarrow>
            escaped w w' e) \<and>
         (\<forall>handler x e.
            Map_get (handlers w) key = Some handler \<and>
            (handler (msg_data message) = Returns x \<or>
             handler (msg_data message) = Throws (ErrorObj e) \<or>
             handler (msg_data message) = Throws (NonError e)) \<and>
            refused \<noteq> None \<longrightarrow>
            escaped w w' (tmpl refused)) \<and>
         (\<forall>handler q.
            Map_get (handlers w) key = Some handler \<and>
            handler (msg_data message) = Promise q \<longrightarrow>
            outbox w' = outbox w \<and>
            unhandledRejections w' = unhandledRejections w \<and>
            map_of (awaiting w') (nextAwait w) =
              Some \<lparr>su_this = this, su_id = msg_id message, su_channel = msg_channel message,
                    su_outcome = q\<rparr>) \<and>
         pendingRequests w' = pendingRequests w \<and>
         settled w' = settled w \<and>
         handlers w' = handlers w \<and>
         (\<forall>result d.
            p = Fulfils result \<and> post result = Inr d \<longrightarrow>
            answered v v' (reply later MT_RESPONSE d None) \<and> map_of (awaiting v') k = None) \<and>
         (\<forall>result e.
            p = Fulfils result \<and> post result = Inl e \<and> refused = None \<longrightarrow>
            answered v v' (reply later MT_ERROR None (Some e)) \<and>
            map_of (awaiting v') k = None) \<and>
         (\<forall>text.
            (p = Rejects (ErrorObj text) \<or> p = Rejects (NonError text)) \<and> refused = None \<longrightarrow>
            answered v v' (reply later MT_ERROR None (Some text)) \<and>
            map_of (awaiting v') k = None) \<and>
         (\<forall>e. p = Rejects (Unstringable e) \<longrightarrow> escaped v v' e) \<and>
         (\<forall>x e.
            (p = Fulfils x \<or> p = Rejects (ErrorObj e) \<or> p = Rejects (NonError e)) \<and>
            refused \<noteq> None \<longrightarrow>
            escaped v v' (tmpl refused)) \<and>
         (p = NeverSettles \<longrightarrow> v' = v)"
proof -
  have w': "w' = handleRequest this now message (log this ''Message received'' w)"
    unfolding assms(11) by (rule handleMessage_request [OF assms(1-4)])
  have post_refused:
    "\<And>result e. originError (target this) (targetOrigin this) = Some e \<Longrightarrow>
       Window_postMessage (target this) result (targetOrigin this) = Inl e"
    by (simp add: Window_postMessage_def)
  have a: "(Map_get (handlers w) key = None \<and> refused = None \<longrightarrow>
            answered w w'
              (reply now MT_ERROR None
                 (Some (''No handler for method: '' @ tmpl (msg_method message))))) \<and>
         (\<forall>e. Map_get (handlers w) key = None \<and> refused = Some e \<longrightarrow> escaped w w' e)"
    by (auto simp add: w' handleRequest_def assms(5-10) sendError_outbox unhandledRejection_def
        Let_def)
  have b: "(\<forall>handler result d.
            Map_get (handlers w) key = Some handler \<and>
            handler (msg_data message) = Returns result \<and> post result = Inr d \<longrightarrow>
            answered w w' (reply now MT_RESPONSE d None)) \<and>
         (\<forall>handler result e.
            Map_get (handlers w) key = Some handler \<and>
            handler (msg_data message) = Returns result \<and> post result = Inl e \<and>
            refused = None \<longrightarrow>
            answered w w' (reply now MT_ERROR None (Some e)))"
    by (auto simp add: w' handleRequest_def assms(5-10) afterAwait_outbox sendError_outbox
        Let_def)
  have c: "(\<forall>handler text.
            Map_get (handlers w) key = Some handler \<and>
            (handler (msg_data message) = Throws (ErrorObj text) \<or>
             handler (msg_data message) = Throws (NonError text)) \<and>
            refused = None \<longrightarrow>
            answered w w' (reply now MT_ERROR None (Some text))) \<and>
         (\<forall>handler e.
            Map_get (handlers w) key = Some handler \<and>
            handler (msg_data message) = Throws (Unstringable e) \<longrightarrow>
            escaped w w' e)"
    by (auto simp add: w' handleRequest_def assms(5-10) catchBlock_outbox sendError_outbox
        unhandledRejection_def Let_def)
  have d: "(\<forall>handler x e.
            Map_get (handlers w) key = Some handler \<and>
            (handler (msg_data message) = Returns x \<or>
             handler (msg_data message) = Throws (ErrorObj e) \<or>
             handler (msg_data message) = Throws (NonError e)) \<and>
            refused \<noteq> None \<longrightarrow>
            escaped w w' (tmpl refused))"
    by (auto simp add: w' handleRequest_def assms(5-10) afterAwait_outbox post_refused
        catchBlock_outbox sendError_outbox unhandledRejection_def Let_def)
  have e: "(\<forall>handler q.
            Map_get (handlers w) key = Some handler \<and>
            handler (msg_data message) = Promise q \<longrightarrow>
            outbox w' = outbox w \<and>
            unhandledRejections w' = unhandledRejections w \<and>
            map_of (awaiting w') (nextAwait w) =
              Some \<lparr>su_this = this, su_id = msg_id message, su_channel = msg_channel message,
                    su_outcome = q\<rparr>)"
    by (auto simp add: w' handleRequest_def assms(5) update_conv' Let_def)
  have f: "pendingRequests w' = pendingRequests w \<and> settled w' = settled w \<and>
           handlers w' = handlers w"
    by (simp add: w' handleRequest_def Let_def split: option.splits hresult.splits)
  have g: "(\<forall>result d.
            p = Fulfils result \<and> post result = Inr d \<longrightarrow>
            answered v v' (reply later MT_RESPONSE d None) \<and> map_of (awaiting v') k = None) \<and>
         (\<forall>result e.
            p = Fulfils result \<and> post result = Inl e \<and> refused = None \<longrightarrow>
            answered v v' (reply later MT_ERROR None (Some e)) \<and>
            map_of (awaiting v') k = None)"
    using assms(12)
    by (auto simp add: assms(13) handlerSettles_def assms(6-10) afterAwait_outbox
        sendError_outbox delete_conv' Let_def)
  have h: "(\<forall>text.
            (p = Rejects (ErrorObj text) \<or> p = Rejects (NonError text)) \<and> refused = None \<longrightarrow>
            answered v v' (reply later MT_ERROR None (Some text)) \<and>
            map_of (awaiting v') k = None) \<and>
         (\<forall>e. p = Rejects (Unstringable e) \<longrightarrow> escaped v v' e)"
    using assms(12)
    by (auto simp add: assms(13) handlerSettles_def assms(6-10) catchBlock_outbox
        sendError_outbox unhandledRejection_def delete_conv' Let_def)
  have i: "(\<forall>x e.
            (p = Fulfils x \<or> p = Rejects (ErrorObj e) \<or> p = Rejects (NonError e)) \<and>
            refused \<noteq> None \<longrightarrow>
            escaped v v' (tmpl refused))"
    using assms(12)
    by (auto simp add: assms(13) handlerSettles_def assms(6-10) afterAwait_outbox post_refused
        catchBlock_outbox sendError_outbox unhandledRejection_def Let_def)
  have j: "p = NeverSettles \<longrightarrow> v' = v"
    using assms(12) by (simp add: assms(13) handlerSettles_def)
  show ?thesis
    apply (insert a b c d e f g h i j)
    apply (elim conjE)
    apply (intro conjI)
    apply assumption+
    done
qed

text \<open>The peer, evaluated: a request arrives while a handler is registered on its channel.\<close>

lemma ex_peer_eval:
  "ex_peer = \<lparr>target = ex_window, targetOrigin = ''*'', timeout = Num 30000,
              debug = False, channelName = None, isRootBridge = True\<rparr>"
  "ex_peer_a = \<lparr>target = ex_window, targetOrigin = ''*'', timeout = Num 30000,
                debug = False, channelName = Some ''a'', isRootBridge = False\<rparr>"
  "ex_peer_started = empty_world\<lparr>messageHandler := True\<rparr>"
  by (simp_all add: ex_peer_def ex_peer_a_def ex_peer_started_def channel_def constructor_def
      new_bridge_def log_def empty_world_def Let_def)

lemma ex_peer_fields:
  "target ex_peer = ex_window"
  "targetOrigin ex_peer = ''*''"
  "originError ex_window ''*'' = None"
  "getHandlerKey ex_peer (Some ''ping'') (Some ''a'') = Some ''a:ping''"
  "\<not> debug ex_peer"
  by (simp_all add: ex_peer_eval ex_window_def getHandlerKey_def)

lemma ex_peer_on:
  "on ex_peer_a ''ping'' handler ex_peer_started =
     empty_world\<lparr>messageHandler := True, handlers := [(''a:ping'', handler)]\<rparr>"
  by (simp add: ex_peer_eval on_def getHandlerKey_def log_def empty_world_def)

lemma ex_peer_on_handlers:
  "handlers (on ex_peer_a ''ping'' handler ex_peer_started) = [(''a:ping'', handler)]"
  by (simp add: ex_peer_on empty_world_def)

lemma ex_request_event_data:
  "ev_data ex_request_event =
     Object \<lparr>msg_protocol = JStr PROTOCOL_ID, msg_id = JStr ''r1'', msg_type = JStr MT_REQUEST,
             msg_method = Some ''ping'', msg_channel = Some ''a'', msg_data = Some 1,
             msg_error = None, msg_timestamp = JNum (Num 10)\<rparr>"
  by (simp add: ex_request_event_def)

lemma ex_peer_handles:
  "handleMessage ex_peer 12 ex_request_event (on ex_peer_a ''ping'' handler ex_peer_started) =
     handleRequest ex_peer 12
       \<lparr>msg_protocol = JStr PROTOCOL_ID, msg_id = JStr ''r1'', msg_type = JStr MT_REQUEST,
        msg_method = Some ''ping'', msg_channel = Some ''a'', msg_data = Some 1,
        msg_error = None, msg_timestamp = JNum (Num 10)\<rparr>
       (empty_world\<lparr>messageHandler := True, handlers := [(''a:ping'', handler)]\<rparr>)"
proof -
  have "handleMessage ex_peer 12 ex_request_event
          (on ex_peer_a ''ping'' handler ex_peer_started) =
        handleRequest ex_peer 12
          \<lparr>msg_protocol = JStr PROTOCOL_ID, msg_id = JStr ''r1'', msg_type = JStr MT_REQUEST,
           msg_method = Some ''ping'', msg_channel = Some ''a'', msg_data = Some 1,
           msg_error = None, msg_timestamp = JNum (Num 10)\<rparr>
          (log ex_peer ''Message received'' (on ex_peer_a ''ping'' handler ex_peer_started))"
    by (rule handleMessage_request [OF disjI1 [OF ex_peer_fields(2)] ex_request_event_data])
       (simp_all add: isValidMessage_Object)
  then show ?thesis
    by (simp add: ex_peer_on log_def ex_peer_fields)
qed

lemma ex_peer_double:
  "handleMessage ex_peer 12 ex_request_event (on ex_peer_a ''ping'' ex_double ex_peer_started) =
     empty_world
       \<lparr>messageHandler := True, handlers := [(''a:ping'', ex_double)],
        calls := [HandlerCall ''a:ping'' (Some 1)],
        outbox := [(\<lparr>msg_protocol = JStr PROTOCOL_ID, msg_id = JStr ''r1'',
                     msg_type = JStr MT_RESPONSE, msg_method = None, msg_channel = Some ''a'',
                     msg_data = Some 2, msg_error = None, msg_timestamp = JNum (Num 12)\<rparr>,
                    ''*'')]\<rparr>"
  by (simp add: ex_peer_handles handleRequest_def ex_peer_fields ex_double_def
      afterAwait_outbox ex_window_post log_def empty_world_def Let_def)

lemma ex_peer_later:
  "handleMessage ex_peer 12 ex_request_event (on ex_peer_a ''ping'' ex_later ex_peer_started) =
     empty_world
       \<lparr>messageHandler := True, handlers := [(''a:ping'', ex_later)],
        calls := [HandlerCall ''a:ping'' (Some 1)],
        awaiting := [(0, \<lparr>su_this = ex_peer, su_id = JStr ''r1'', su_channel = Some ''a'',
                           su_outcome = Fulfils (Some 1)\<rparr>)],
        nextAwait := 1\<rparr>"
  by (simp add: ex_peer_handles handleRequest_def ex_peer_fields ex_later_def
      empty_world_def Let_def)

lemma ex_peer_later_settles:
  "outbox (handlerSettles 0 14
             (handleMessage ex_peer 12 ex_request_event
                (on ex_peer_a ''ping'' ex_later ex_peer_started))) =
     [(\<lparr>msg_protocol = JStr PROTOCOL_ID, msg_id = JStr ''r1'', msg_type = JStr MT_RESPONSE,
        msg_method = None, msg_channel = Some ''a'', msg_data = Some 1, msg_error = None,
        msg_timestamp = JNum (Num 14)\<rparr>, ''*'')]"
  by (simp add: ex_peer_later handlerSettles_def afterAwait_outbox ex_peer_fields
      ex_window_post log_def empty_world_def)

theorem C2_one_reply_per_request_witness:
  "targetOrigin ex_peer = ''*'' \<and>
   isValidMessage (ev_data ex_request_event) \<and>
   Map_get (handlers (on ex_peer_a ''ping'' ex_double ex_peer_started)) (Some ''a:ping'') =
     Some ex_double \<and>
   ex_double (Some 1) = Returns (Some 2) \<and>
   Window_postMessage ex_window (Some 2) ''*'' = Inr (Some 2) \<and>
   outbox (handleMessage ex_peer 12 ex_request_event
             (on ex_peer_a ''ping'' ex_double ex_peer_started)) =
     [(\<lparr>msg_protocol = JStr PROTOCOL_ID, msg_id = JStr ''r1'', msg_type = JStr MT_RESPONSE,
        msg_method = None, msg_channel = Some ''a'', msg_data = Some 2, msg_error = None,
        msg_timestamp = JNum (Num 12)\<rparr>, ''*'')] \<and>
   unhandledRejections (handleMessage ex_peer 12 ex_request_event
             (on ex_peer_a ''ping'' ex_double ex_peer_started)) = [] \<and>
   map_of (awaiting (handleMessage ex_peer 12 ex_request_event
             (on ex_peer_a ''ping'' ex_later ex_peer_started))) 0 =
     Some \<lparr>su_this = ex_peer, su_id = JStr ''r1'', su_channel = Some ''a'',
           su_outcome = Fulfils (Some 1)\<rparr> \<and>
   outbox (handlerSettles 0 14
             (handleMessage ex_peer 12 ex_request_event
                (on ex_peer_a ''ping'' ex_later ex_peer_started))) =
     [(\<lparr>msg_protocol = JStr PROTOCOL_ID, msg_id = JStr ''r1'', msg_type = JStr MT_RESPONSE,
        msg_method = None, msg_channel = Some ''a'', msg_data = Some 1, msg_error = None,
        msg_timestamp = JNum (Num 14)\<rparr>, ''*'')]"
  using C2_one_reply_per_request
      [where this = ex_peer and event = ex_request_event and now = 12 and later = 14
         and w = "on ex_peer_a ''ping'' ex_double ex_peer_started"
         and v = "handleMessage ex_peer 12 ex_request_event
                    (on ex_peer_a ''ping'' ex_later ex_peer_started)"
         and k = 0 and p = "Fulfils (Some 1)",
       OF disjI1 [OF ex_peer_fields(2)] ex_request_event_data _ _
          refl refl refl refl refl refl refl _ refl]
  by (simp add: ex_peer_double ex_peer_later ex_peer_later_settles ex_peer_on_handlers
      ex_request_event_data isValidMessage_Object ex_peer_fields ex_window_post ex_double_def
      empty_world_def)

text \<open>
  Claim C2, as the specification words it, fails for a handler whose promise never
  settles: the request is handled, the handler is called, and nothing is ever posted,
  neither when the message is dispatched nor when the suspended call is resumed.
\<close>

theorem C2_never_settling_counterexample:
  "isValidMessage (ev_data ex_request_event) \<and>
   calls (handleMessage ex_peer 12 ex_request_event
            (on ex_peer_a ''ping'' (\<lambda>d. Promise NeverSettles) ex_peer_started)) =
     [HandlerCall ''a:ping'' (Some 1)] \<and>
   outbox (handleMessage ex_peer 12 ex_request_event
            (on ex_peer_a ''ping'' (\<lambda>d. Promise NeverSettles) ex_peer_started)) = [] \<and>
   outbox (run [HandlerSettles 0 13, HandlerSettles 0 14]
            (handleMessage ex_peer 12 ex_request_event
               (on ex_peer_a ''ping'' (\<lambda>d. Promise NeverSettles) ex_peer_started))) = []"
  by (simp add: ex_peer_handles ex_request_event_data isValidMessage_Object handleRequest_def
      ex_peer_fields empty_world_def Let_def run_def handlerSettles_def)

end
